theory Spec2Isabelle
  imports Complex_Main "HOL-Library.Sublist"
begin

section \<open>JavaScript strings\<close>

text \<open>
  A JavaScript string is a sequence of UTF-16 code units. The embedding uses
  \<^typ>\<open>string\<close> and reads a \<^typ>\<open>char\<close> as a code unit below 256, so every statement
  below is about strings of such code units (ASCII and Latin-1).
\<close>

definition isWhiteSpace :: "char \<Rightarrow> bool" where
  \<comment> \<open>what \<open>String.prototype.trim\<close> strips and the regular expression class \<open>\s\<close> accepts:
      TAB, LF, VT, FF, CR, SPACE and NBSP\<close>
  "isWhiteSpace c = (of_char c \<in> {9, 10, 11, 12, 13, 32, 160 :: nat})"

definition trim :: "string \<Rightarrow> string" where
  "trim s = rev (dropWhile isWhiteSpace (rev (dropWhile isWhiteSpace s)))"

definition lowerChar :: "char \<Rightarrow> char" where
  \<comment> \<open>A-Z, and the Latin-1 capitals (all of C0-DE but the multiplication sign D7)\<close>
  "lowerChar c =
     (let n = (of_char c :: nat)
      in if (65 \<le> n \<and> n \<le> 90) \<or> (192 \<le> n \<and> n \<le> 222 \<and> n \<noteq> 215)
         then char_of (n + 32) else c)"

definition toLowerCase :: "string \<Rightarrow> string" where
  "toLowerCase s = map lowerChar s"

definition str_includes :: "string \<Rightarrow> string \<Rightarrow> bool" where
  \<comment> \<open>\<open>s.includes(t)\<close>: \<open>t\<close> occurs in \<open>s\<close> as a contiguous piece\<close>
  "str_includes s t = sublist t s"

definition startsWith :: "string \<Rightarrow> string \<Rightarrow> bool" where
  "startsWith s t = prefix t s"

fun split_lines :: "string \<Rightarrow> string list" where
  \<comment> \<open>\<open>s.split('\n')\<close>: one more piece than there are line feeds\<close>
  "split_lines [] = [[]]"
| "split_lines (c # cs) =
     (if c = CHR 0x0A then [] # split_lines cs
      else (case split_lines cs of [] \<Rightarrow> [[c]] | l # ls \<Rightarrow> (c # l) # ls))"

fun replace_first :: "string \<Rightarrow> string \<Rightarrow> string \<Rightarrow> string" where
  \<comment> \<open>\<open>s.replace(pat, rep)\<close> with a string pattern: the first occurrence only\<close>
  "replace_first pat rep [] = (if pat = [] then rep else [])"
| "replace_first pat rep (c # cs) =
     (if prefix pat (c # cs) then rep @ drop (length pat) (c # cs)
      else c # replace_first pat rep cs)"

definition remove_quotes :: "string \<Rightarrow> string" where
  \<comment> \<open>\<open>s.replace(/"/g, '')\<close>\<close>
  "remove_quotes s = filter (\<lambda>c. c \<noteq> CHR 0x22) s"

definition digit_char :: "nat \<Rightarrow> char" where
  "digit_char d = char_of (48 + d)"

function decimal :: "nat \<Rightarrow> string" where
  \<comment> \<open>a non-negative integer in a template literal\<close>
  "decimal n = (if n < 10 then [digit_char n] else decimal (n div 10) @ [digit_char (n mod 10)])"
  by pat_completeness auto
termination
  by (relation "measure id") auto

declare decimal.simps [simp del]

definition date_part :: "string \<Rightarrow> string" where
  \<comment> \<open>\<open>stamp.split('T')[0]\<close>\<close>
  "date_part stamp = takeWhile (\<lambda>c. c \<noteq> CHR ''T'') stamp"

definition or_default :: "string option \<Rightarrow> string \<Rightarrow> string" where
  \<comment> \<open>\<open>x || d\<close> for an optional string \<open>x\<close>: undefined and the empty string are falsy\<close>
  "or_default x d = (case x of None \<Rightarrow> d | Some v \<Rightarrow> if v = [] then d else v)"

section \<open>The medical record store (MedicalDataManager)\<close>

record medication =
  med_id :: string
  med_name :: string
  dose :: string
  frequency :: string
  indication :: string
  startDate :: string
  prescriber :: string
  med_status :: string
  dateAdded :: "string option"
  discontinueDate :: "string option"
  discontinueReason :: "string option"

record allergy =
  allergy_id :: string
  allergen :: string
  reaction :: string
  severity :: string
  dateRecorded :: string
  recordedBy :: "string option"

record condition =
  cond_id :: string
  cond_name :: string
  icd10 :: string
  cond_status :: string
  diagnosisDate :: string

record vitals =
  lastRecorded :: string
  bloodPressure :: string
  heartRate :: int
  temperature :: real
  respiratoryRate :: int
  oxygenSaturation :: int

record patientInfo =
  pat_name :: string
  age :: int
  patientId :: string
  mrn :: string

record patientData =
  patientInfo :: patientInfo
  medications :: "medication list"
  allergies :: "allergy list"
  conditions :: "condition list"
  vitals :: vitals

text \<open>
  The manager's state: the in-memory record, the time stamp of the last save, and the
  \<open>medicalData\<close> entry of localStorage, held as the record whose JSON text it stores.
\<close>

record manager =
  patientData :: patientData
  lastUpdated :: string
  medicalData_item :: "patientData option"

text \<open>
  What a call reads from its environment: the clock (\<open>Date.now()\<close> and
  \<open>new Date().toISOString()\<close>, read once per call), \<open>Math.floor(Math.random() * 1000)\<close>, and
  whether \<open>localStorage.setItem\<close> succeeds.
\<close>

record env =
  timestamp :: nat
  random :: nat
  now_iso :: string
  storage_ok :: bool

text \<open>The argument of \<open>addMedication\<close>: an object with a name and optional other fields.\<close>

record medicationData =
  md_name :: string
  md_dose :: "string option"
  md_frequency :: "string option"
  md_indication :: "string option"
  md_startDate :: "string option"
  md_prescriber :: "string option"

definition demo_patientData :: patientData where
  "demo_patientData = \<lparr>
     patientInfo = \<lparr> pat_name = ''Demo Patient'', age = 45, patientId = ''PAT-001'',
                     mrn = ''MRN123456'' \<rparr>,
     medications = [
       \<lparr> med_id = ''med-001'', med_name = ''Lisinopril'', dose = ''10mg'',
         frequency = ''once daily'', indication = ''Hypertension'', startDate = ''2024-01-15'',
         prescriber = ''Dr. Smith'', med_status = ''active'', dateAdded = None,
         discontinueDate = None, discontinueReason = None \<rparr>,
       \<lparr> med_id = ''med-002'', med_name = ''Metformin'', dose = ''500mg'',
         frequency = ''twice daily'', indication = ''Type 2 Diabetes'', startDate = ''2024-02-01'',
         prescriber = ''Dr. Johnson'', med_status = ''active'', dateAdded = None,
         discontinueDate = None, discontinueReason = None \<rparr>],
     allergies = [
       \<lparr> allergy_id = ''allergy-001'', allergen = ''Penicillin'', reaction = ''Rash'',
         severity = ''Moderate'', dateRecorded = ''2024-01-10'', recordedBy = None \<rparr>],
     conditions = [
       \<lparr> cond_id = ''cond-001'', cond_name = ''Essential Hypertension'', icd10 = ''I10'',
         cond_status = ''active'', diagnosisDate = ''2024-01-15'' \<rparr>,
       \<lparr> cond_id = ''cond-002'', cond_name = ''Type 2 Diabetes Mellitus'', icd10 = ''E11.9'',
         cond_status = ''active'', diagnosisDate = ''2024-02-01'' \<rparr>],
     vitals = \<lparr> lastRecorded = ''2024-08-18'', bloodPressure = ''130/85'', heartRate = 72,
                temperature = 986 / 10, respiratoryRate = 16, oxygenSaturation = 98 \<rparr> \<rparr>"

definition generateId :: "env \<Rightarrow> string \<Rightarrow> string" where
  "generateId e pre = pre @ ''-'' @ decimal (timestamp e) @ ''-'' @ decimal (random e)"

definition saveToStorage :: "env \<Rightarrow> manager \<Rightarrow> manager" where
  \<comment> \<open>a failing \<open>setItem\<close> is caught and only logged\<close>
  "saveToStorage e s =
     (if storage_ok e
      then s\<lparr> medicalData_item := Some (patientData s), lastUpdated := now_iso e \<rparr>
      else s)"

definition checkDrugClassAllergy :: "string \<Rightarrow> string \<Rightarrow> bool" where
  "checkDrugClassAllergy medication al =
     (if str_includes al ''penicillin''
      then list_ex (str_includes medication) [''amoxicillin'', ''ampicillin'', ''penicillin'']
      else if str_includes al ''sulfa''
      then list_ex (str_includes medication) [''sulfamethoxazole'', ''sulfasalazine'']
      else if str_includes al ''nsaid''
      then list_ex (str_includes medication) [''ibuprofen'', ''naproxen'', ''aspirin'', ''celecoxib'']
      else False)"

fun checkAllergies_loop :: "string \<Rightarrow> allergy list \<Rightarrow> allergy option" where
  "checkAllergies_loop med [] = None"
| "checkAllergies_loop med (a # as) =
     (let al = toLowerCase (allergen a)
      in if str_includes med al \<or> str_includes al med then Some a
         else if checkDrugClassAllergy med al then Some a
         else checkAllergies_loop med as)"

definition checkAllergies :: "manager \<Rightarrow> string \<Rightarrow> allergy option" where
  \<comment> \<open>\<open>None\<close> is \<open>{hasAllergy: false}\<close>; \<open>Some a\<close> is \<open>hasAllergy: true\<close> with the allergen,
      reaction and severity of \<open>a\<close>\<close>
  "checkAllergies s medicationName =
     checkAllergies_loop (toLowerCase medicationName) (allergies (patientData s))"

text \<open>
  The object a mutator returns: \<open>{success: false, error}\<close>, or \<open>{success: true, ...}\<close> with
  the other fields. \<open>addMedication\<close> returns the new medication, a message and the warnings;
  \<open>discontinueMedication\<close> returns four fields of the medication and a message.
\<close>

datatype 'a js_result =
  Failure (error_message: string)
  | Success (payload: 'a)

fun success :: "'a js_result \<Rightarrow> bool" where
  "success (Failure _) = False"
| "success (Success _) = True"

record added =
  added_medication :: medication
  added_message :: string
  warnings :: "string list"

record medication_summary =
  summary_id :: string
  summary_name :: string
  summary_dose :: string
  summary_frequency :: string

record stopped =
  stopped_medication :: medication_summary
  stopped_message :: string

definition addMedication ::
    "env \<Rightarrow> medicationData \<Rightarrow> manager \<Rightarrow> added js_result \<times> manager" where
  "addMedication e medicationData s =
     (let newMedication = \<lparr>
            med_id = generateId e ''med'',
            med_name = md_name medicationData,
            dose = or_default (md_dose medicationData) '''',
            frequency = or_default (md_frequency medicationData) '''',
            indication = or_default (md_indication medicationData) '''',
            startDate = or_default (md_startDate medicationData) (date_part (now_iso e)),
            prescriber = or_default (md_prescriber medicationData) ''System'',
            med_status = ''active'',
            dateAdded = Some (now_iso e),
            discontinueDate = None,
            discontinueReason = None \<rparr>;
          existingMed = find (\<lambda>med. toLowerCase (med_name med) = toLowerCase (med_name newMedication)
                                  \<and> med_status med = ''active'')
                          (medications (patientData s))
      in case existingMed of
           Some _ \<Rightarrow>
             (Failure (''Patient is already on '' @ med_name newMedication
                        @ ''. Consider updating the existing medication instead.''), s)
         | None \<Rightarrow>
             (let allergyCheck = checkAllergies s (med_name newMedication);
                  pd = patientData s;
                  s1 = s\<lparr> patientData := pd\<lparr> medications := medications pd @ [newMedication] \<rparr> \<rparr>;
                  s2 = saveToStorage e s1
              in (Success \<lparr>
                    added_medication = newMedication,
                    added_message = ''Successfully added '' @ med_name newMedication @ '' ''
                      @ dose newMedication @ '' '' @ frequency newMedication,
                    warnings = (case allergyCheck of
                                  Some a \<Rightarrow> [''ALLERGY WARNING: Patient allergic to '' @ allergen a]
                                | None \<Rightarrow> []) \<rparr>,
                  s2)))"

fun find_index :: "('a \<Rightarrow> bool) \<Rightarrow> 'a list \<Rightarrow> nat option" where
  \<comment> \<open>the position of the element \<open>Array.prototype.find\<close> returns\<close>
  "find_index P [] = None"
| "find_index P (x # xs) =
     (if P x then Some 0 else map_option Suc (find_index P xs))"

definition find_active :: "string \<Rightarrow> medication list \<Rightarrow> nat option" where
  \<comment> \<open>the active medication with this id, else the active medication with this name\<close>
  "find_active medId meds =
     (case find_index (\<lambda>med. med_id med = medId \<and> med_status med = ''active'') meds of
        Some i \<Rightarrow> Some i
      | None \<Rightarrow> find_index (\<lambda>med. toLowerCase (med_name med) = toLowerCase medId
                                   \<and> med_status med = ''active'') meds)"

definition discontinueMedication ::
    "env \<Rightarrow> string \<Rightarrow> manager \<Rightarrow> stopped js_result \<times> manager" where
  "discontinueMedication e medId s =
     (let meds = medications (patientData s)
      in case find_active medId meds of
           None \<Rightarrow>
             (Failure (''Medication '' @ [CHR 0x27] @ medId @ [CHR 0x27]
                        @ '' not found or already discontinued''), s)
         | Some i \<Rightarrow>
             (let medication = (meds ! i)\<lparr>
                    med_status := ''discontinued'',
                    discontinueDate := Some (date_part (now_iso e)),
                    discontinueReason := Some ''Discontinued via AI Assistant'' \<rparr>;
                  pd = patientData s;
                  s1 = s\<lparr> patientData := pd\<lparr> medications := meds[i := medication] \<rparr> \<rparr>;
                  s2 = saveToStorage e s1
              in (Success \<lparr>
                    stopped_medication = \<lparr> summary_id = med_id medication,
                      summary_name = med_name medication, summary_dose = dose medication,
                      summary_frequency = frequency medication \<rparr>,
                    stopped_message = ''Successfully discontinued '' @ med_name medication \<rparr>,
                  s2)))"

text \<open>
  Errors that are thrown. A class constructor can only be invoked with \<open>new\<close>: a plain
  call of it throws a TypeError before its body runs.
\<close>

datatype js_error = TypeError string | Error string

datatype call_kind = New | Call

definition initializeFromStorage :: "manager \<Rightarrow> manager" where
  \<comment> \<open>a stored record has all five fields, so spreading it over the demo record replaces it\<close>
  "initializeFromStorage s =
     (case medicalData_item s of
        Some parsed \<Rightarrow> s\<lparr> patientData := parsed \<rparr>
      | None \<Rightarrow> s)"

definition MedicalDataManager_constructor ::
    "call_kind \<Rightarrow> env \<Rightarrow> patientData option \<Rightarrow> js_error + manager" where
  "MedicalDataManager_constructor k e item =
     (case k of
        Call \<Rightarrow> Inl (TypeError (''Class constructor MedicalDataManager cannot be invoked without ''
                              @ [CHR 0x27] @ ''new'' @ [CHR 0x27]))
      | New \<Rightarrow> Inr (initializeFromStorage
                      \<lparr> patientData = demo_patientData, lastUpdated = now_iso e,
                        medicalData_item = item \<rparr>))"

definition resetToDemo :: "env \<Rightarrow> manager \<Rightarrow> (js_error + string) \<times> manager" where
  \<comment> \<open>\<open>localStorage.removeItem('medicalData'); this.constructor(); return {success: true, ...}\<close>\<close>
  "resetToDemo e s =
     (let s1 = s\<lparr> medicalData_item := None \<rparr>
      in case MedicalDataManager_constructor Call e (medicalData_item s1) of
           Inl err \<Rightarrow> (Inl err, s1)
         | Inr s2 \<Rightarrow> (Inr ''Data reset to demo state'', s2))"

text \<open>An environment and the manager a page load with empty storage constructs.\<close>

definition demo_env :: env where
  "demo_env = \<lparr> timestamp = 1724000000000, random = 42,
                now_iso = ''2024-08-18T10:00:00.000Z'', storage_ok = True \<rparr>"

definition demo_manager :: manager where
  "demo_manager = \<lparr> patientData = demo_patientData, lastUpdated = now_iso demo_env,
                    medicalData_item = None \<rparr>"

definition active_duplicate :: "string \<Rightarrow> medication \<Rightarrow> bool" where
  \<comment> \<open>an active medication of the same name, letter case aside\<close>
  "active_duplicate name med \<longleftrightarrow>
     med_status med = ''active'' \<and> toLowerCase (med_name med) = toLowerCase name"

definition matches_active :: "string \<Rightarrow> medication \<Rightarrow> bool" where
  \<comment> \<open>an active medication with this id or, letter case aside, this name\<close>
  "matches_active medId med \<longleftrightarrow>
     med_status med = ''active'' \<and>
     (med_id med = medId \<or> toLowerCase (med_name med) = toLowerCase medId)"

definition allergy_conflict :: "string \<Rightarrow> allergy \<Rightarrow> bool" where
  \<comment> \<open>the lowercased medication name matches the allergen directly or through a drug class\<close>
  "allergy_conflict med a \<longleftrightarrow>
     str_includes med (toLowerCase (allergen a)) \<or> str_includes (toLowerCase (allergen a)) med
     \<or> checkDrugClassAllergy med (toLowerCase (allergen a))"

definition discontinued :: "env \<Rightarrow> medication \<Rightarrow> medication" where
  "discontinued e med = med\<lparr>
     med_status := ''discontinued'',
     discontinueDate := Some (date_part (now_iso e)),
     discontinueReason := Some ''Discontinued via AI Assistant'' \<rparr>"

text \<open>Three orders: a new drug, a duplicate in other letter case, and a penicillin.\<close>

definition ibuprofen_order :: medicationData where
  "ibuprofen_order = \<lparr> md_name = ''Ibuprofen'', md_dose = Some ''200mg'',
     md_frequency = Some ''twice daily'', md_indication = None, md_startDate = None,
     md_prescriber = None \<rparr>"

definition metformin_order :: medicationData where
  "metformin_order = \<lparr> md_name = ''METFORMIN'', md_dose = None, md_frequency = None,
     md_indication = None, md_startDate = None, md_prescriber = None \<rparr>"

definition amoxicillin_order :: medicationData where
  "amoxicillin_order = \<lparr> md_name = ''Amoxicillin'', md_dose = Some ''250mg'',
     md_frequency = None, md_indication = None, md_startDate = None, md_prescriber = None \<rparr>"

section \<open>JavaScript values and JSON.parse\<close>

text \<open>
  The values \<open>JSON.parse\<close> produces. An escape \<open>\uXXXX\<close> can denote any code unit, so a string
  value holds its code units as naturals; a number is kept as its literal.
\<close>

datatype json =
  JNull
  | JBool bool
  | JNumber string
  | JString "nat list"
  | JArray "json list"
  | JObject "(nat list \<times> json) list"

definition js_string :: "string \<Rightarrow> json" where
  \<comment> \<open>a string of the program as a value\<close>
  "js_string s = JString (map of_char s)"

text \<open>
  The parsers below take \<open>JSON.parse\<close> as a parameter \<open>parse\<close>, \<open>None\<close> standing for the
  SyntaxError it throws, and their theorems hold for every such function. \<open>JSON_parse\<close> is the
  grammar of ECMA-404 on the strings of this embedding; the examples use it.
\<close>

definition json_ws :: "char \<Rightarrow> bool" where
  "json_ws c = (c = CHR '' '' \<or> c = CHR 0x09 \<or> c = CHR 0x0A \<or> c = CHR 0x0D)"

definition skip_ws :: "string \<Rightarrow> string" where
  "skip_ws s = dropWhile json_ws s"

definition is_digit :: "char \<Rightarrow> bool" where
  "is_digit c = (48 \<le> (of_char c :: nat) \<and> (of_char c :: nat) \<le> 57)"

definition hex_value :: "char \<Rightarrow> nat option" where
  "hex_value c =
     (let n = (of_char c :: nat)
      in if 48 \<le> n \<and> n \<le> 57 then Some (n - 48)
         else if 65 \<le> n \<and> n \<le> 70 then Some (n - 55)
         else if 97 \<le> n \<and> n \<le> 102 then Some (n - 87)
         else None)"

definition hex4 :: "char \<Rightarrow> char \<Rightarrow> char \<Rightarrow> char \<Rightarrow> nat option" where
  "hex4 a b c d =
     (case (hex_value a, hex_value b, hex_value c, hex_value d) of
        (Some w, Some x, Some y, Some z) \<Rightarrow> Some (((w * 16 + x) * 16 + y) * 16 + z)
      | _ \<Rightarrow> None)"

definition simple_escape :: "char \<Rightarrow> nat option" where
  "simple_escape e =
     (if e = CHR 0x22 then Some 34
      else if e = CHR 0x5C then Some 92
      else if e = CHR ''/'' then Some 47
      else if e = CHR ''b'' then Some 8
      else if e = CHR ''f'' then Some 12
      else if e = CHR ''n'' then Some 10
      else if e = CHR ''r'' then Some 13
      else if e = CHR ''t'' then Some 9
      else None)"

definition cons_unit :: "nat \<Rightarrow> (nat list \<times> string) option \<Rightarrow> (nat list \<times> string) option" where
  "cons_unit n r = (case r of None \<Rightarrow> None | Some (units, rest) \<Rightarrow> Some (n # units, rest))"

fun parse_string_chars :: "string \<Rightarrow> (nat list \<times> string) option" where
  \<comment> \<open>the characters of a string after its opening quote, up to the closing one\<close>
  "parse_string_chars [] = None"
| "parse_string_chars (c # cs) =
     (if c = CHR 0x22 then Some ([], cs)
      else if c = CHR 0x5C then
        (case cs of
           [] \<Rightarrow> None
         | e # rest \<Rightarrow>
             if e = CHR ''u'' then
               (case rest of
                  h1 # h2 # h3 # h4 # rest' \<Rightarrow>
                    (case hex4 h1 h2 h3 h4 of
                       None \<Rightarrow> None
                     | Some n \<Rightarrow> cons_unit n (parse_string_chars rest'))
                | _ \<Rightarrow> None)
             else
               (case simple_escape e of
                  None \<Rightarrow> None
                | Some n \<Rightarrow> cons_unit n (parse_string_chars rest)))
      else if (of_char c :: nat) < 32 then None
      else cons_unit (of_char c) (parse_string_chars cs))"

definition take_digits :: "string \<Rightarrow> string \<times> string" where
  "take_digits s = (takeWhile is_digit s, dropWhile is_digit s)"

definition parse_int_part :: "string \<Rightarrow> (string \<times> string) option" where
  \<comment> \<open>\<open>0\<close>, or a digit from 1 to 9 and more digits\<close>
  "parse_int_part s =
     (case s of
        [] \<Rightarrow> None
      | c # cs \<Rightarrow>
          if c = CHR ''0'' then Some ([c], cs)
          else if is_digit c then Some (c # fst (take_digits cs), snd (take_digits cs))
          else None)"

definition parse_frac_part :: "string \<Rightarrow> (string \<times> string) option" where
  "parse_frac_part s =
     (case s of
        c # cs \<Rightarrow>
          if c = CHR ''.'' then
            (if fst (take_digits cs) = [] then None
             else Some (c # fst (take_digits cs), snd (take_digits cs)))
          else Some ([], s)
      | [] \<Rightarrow> Some ([], s))"

definition parse_exp_part :: "string \<Rightarrow> (string \<times> string) option" where
  "parse_exp_part s =
     (case s of
        c # cs \<Rightarrow>
          if c = CHR ''e'' \<or> c = CHR ''E'' then
            (let (sign, ds) = (case cs of
                                 d # ds' \<Rightarrow> if d = CHR ''+'' \<or> d = CHR ''-'' then ([d], ds') else ([], cs)
                               | [] \<Rightarrow> ([], cs))
             in if fst (take_digits ds) = [] then None
                else Some (c # sign @ fst (take_digits ds), snd (take_digits ds)))
          else Some ([], s)
      | [] \<Rightarrow> Some ([], s))"

definition parse_number :: "string \<Rightarrow> (json \<times> string) option" where
  "parse_number s =
     (let (minus, s1) = (case s of
                           c # cs \<Rightarrow> if c = CHR ''-'' then ([c], cs) else ([], s)
                         | [] \<Rightarrow> ([], s))
      in case parse_int_part s1 of
           None \<Rightarrow> None
         | Some (i, s2) \<Rightarrow>
             (case parse_frac_part s2 of
                None \<Rightarrow> None
              | Some (f, s3) \<Rightarrow>
                  (case parse_exp_part s3 of
                     None \<Rightarrow> None
                   | Some (x, s4) \<Rightarrow> Some (JNumber (minus @ i @ f @ x), s4))))"

fun parse_value :: "nat \<Rightarrow> string \<Rightarrow> (json \<times> string) option"
  and parse_elements :: "nat \<Rightarrow> string \<Rightarrow> (json list \<times> string) option"
  and parse_members :: "nat \<Rightarrow> string \<Rightarrow> ((nat list \<times> json) list \<times> string) option" where
  "parse_value 0 s = None"
| "parse_value (Suc n) s =
     (case s of
        [] \<Rightarrow> None
      | c # cs \<Rightarrow>
          if c = CHR ''{'' then
            (case skip_ws cs of
               [] \<Rightarrow> None
             | d # ds \<Rightarrow>
                 if d = CHR ''}'' then Some (JObject [], ds)
                 else (case parse_members n (d # ds) of
                         None \<Rightarrow> None
                       | Some (ms, rest) \<Rightarrow> Some (JObject ms, rest)))
          else if c = CHR ''['' then
            (case skip_ws cs of
               [] \<Rightarrow> None
             | d # ds \<Rightarrow>
                 if d = CHR '']'' then Some (JArray [], ds)
                 else (case parse_elements n (d # ds) of
                         None \<Rightarrow> None
                       | Some (vs, rest) \<Rightarrow> Some (JArray vs, rest)))
          else if c = CHR 0x22 then
            (case parse_string_chars cs of
               None \<Rightarrow> None
             | Some (units, rest) \<Rightarrow> Some (JString units, rest))
          else if prefix ''true'' s then Some (JBool True, drop 4 s)
          else if prefix ''false'' s then Some (JBool False, drop 5 s)
          else if prefix ''null'' s then Some (JNull, drop 4 s)
          else parse_number s)"
| "parse_elements 0 s = None"
| "parse_elements (Suc n) s =
     (case parse_value n s of
        None \<Rightarrow> None
      | Some (v, rest) \<Rightarrow>
          (case skip_ws rest of
             [] \<Rightarrow> None
           | d # ds \<Rightarrow>
               if d = CHR '','' then
                 (case parse_elements n (skip_ws ds) of
                    None \<Rightarrow> None
                  | Some (vs, rest') \<Rightarrow> Some (v # vs, rest'))
               else if d = CHR '']'' then Some ([v], ds)
               else None))"
| "parse_members 0 s = None"
| "parse_members (Suc n) s =
     (case s of
        [] \<Rightarrow> None
      | q # cs \<Rightarrow>
          if q \<noteq> CHR 0x22 then None
          else
            (case parse_string_chars cs of
               None \<Rightarrow> None
             | Some (key, rest) \<Rightarrow>
                 (case skip_ws rest of
                    [] \<Rightarrow> None
                  | colon # r1 \<Rightarrow>
                      if colon \<noteq> CHR '':'' then None
                      else
                        (case parse_value n (skip_ws r1) of
                           None \<Rightarrow> None
                         | Some (v, r2) \<Rightarrow>
                             (case skip_ws r2 of
                                [] \<Rightarrow> None
                              | d # ds \<Rightarrow>
                                  if d = CHR '','' then
                                    (case parse_members n (skip_ws ds) of
                                       None \<Rightarrow> None
                                     | Some (ms, rest') \<Rightarrow> Some ((key, v) # ms, rest'))
                                  else if d = CHR ''}'' then Some ([(key, v)], ds)
                                  else None)))))"

definition JSON_parse :: "string \<Rightarrow> json option" where
  \<comment> \<open>one value between optional white space; the fuel bounds the depth of the recursion\<close>
  "JSON_parse s =
     (case parse_value (2 * length s + 2) (skip_ws s) of
        None \<Rightarrow> None
      | Some (v, rest) \<Rightarrow> if skip_ws rest = [] then Some v else None)"

section \<open>The provider manager (LLMManager)\<close>

record provider_config =
  display_name :: string
  apiKey :: "string option"
  model :: string
  baseUrl :: string
  configured :: bool

text \<open>
  \<open>this.providers\<close> is an object with the two keys \<open>openai\<close> and \<open>ozwell\<close>; no method adds a
  key. A provider name is taken not to be the name of a property of \<open>Object.prototype\<close>.
\<close>

record providers =
  openai :: provider_config
  ozwell :: provider_config

record LLMManager =
  currentProvider :: "string option"
  providers :: providers

type_synonym localStorage = "string \<rightharpoonup> string"

definition truthy :: "string option \<Rightarrow> bool" where
  \<comment> \<open>null, undefined and the empty string are falsy\<close>
  "truthy x = (case x of None \<Rightarrow> False | Some v \<Rightarrow> v \<noteq> [])"

definition lookup_provider :: "providers \<Rightarrow> string \<Rightarrow> provider_config option" where
  \<comment> \<open>\<open>this.providers[provider]\<close>\<close>
  "lookup_provider ps p =
     (if p = ''openai'' then Some (openai ps)
      else if p = ''ozwell'' then Some (ozwell ps)
      else None)"

definition assign_provider :: "providers \<Rightarrow> string \<Rightarrow> provider_config \<Rightarrow> providers" where
  \<comment> \<open>\<open>this.providers[provider] = c\<close> for an existing key\<close>
  "assign_provider ps p c =
     (if p = ''openai'' then ps\<lparr> openai := c \<rparr>
      else if p = ''ozwell'' then ps\<lparr> ozwell := c \<rparr>
      else ps)"

definition initial_LLMManager :: LLMManager where
  "initial_LLMManager = \<lparr>
     currentProvider = None,
     providers = \<lparr>
       openai = \<lparr> display_name = ''OpenAI'', apiKey = None, model = ''gpt-3.5-turbo'',
                  baseUrl = ''https://api.openai.com/v1/chat/completions'', configured = False \<rparr>,
       ozwell = \<lparr> display_name = ''Ozwell'', apiKey = None, model = ''ozwell-medical-v1'',
                  baseUrl = ''https://ai.bluehive.com/api/v1/completion'', configured = False \<rparr> \<rparr> \<rparr>"

definition isProviderConfigured :: "LLMManager \<Rightarrow> string \<Rightarrow> bool" where
  \<comment> \<open>\<open>this.providers[provider]?.configured || false\<close>\<close>
  "isProviderConfigured s p =
     (case lookup_provider (providers s) p of None \<Rightarrow> False | Some c \<Rightarrow> configured c)"

definition loadSavedConfigurations :: "localStorage \<Rightarrow> LLMManager \<Rightarrow> LLMManager" where
  "loadSavedConfigurations ls s =
     (let openaiKey = ls ''openai_api_key'';
          openaiModel = ls ''openai_model'';
          ps1 = (if truthy openaiKey
                 then (providers s)\<lparr> openai := (openai (providers s))\<lparr>
                        apiKey := openaiKey,
                        configured := True,
                        model := (if truthy openaiModel then the openaiModel
                                  else model (openai (providers s))) \<rparr> \<rparr>
                 else providers s);
          ozwellKey = ls ''ozwell_api_key'';
          ozwellModel = ls ''ozwell_model'';
          ozwellUrl = ls ''ozwell_api_url'';
          ps2 = (if truthy ozwellKey
                 then ps1\<lparr> ozwell := (ozwell ps1)\<lparr>
                        apiKey := ozwellKey,
                        configured := True,
                        model := (if truthy ozwellModel then the ozwellModel else model (ozwell ps1)),
                        baseUrl := (if truthy ozwellUrl then the ozwellUrl
                                    else baseUrl (ozwell ps1)) \<rparr> \<rparr>
                 else ps1);
          savedProvider = ls ''current_llm_provider'';
          s2 = s\<lparr> providers := ps2 \<rparr>
      in if truthy savedProvider \<and> isProviderConfigured s2 (the savedProvider)
         then s2\<lparr> currentProvider := savedProvider \<rparr>
         else s2)"

definition LLMManager_constructor :: "localStorage \<Rightarrow> LLMManager" where
  "LLMManager_constructor ls = loadSavedConfigurations ls initial_LLMManager"

text \<open>
  The argument of \<open>saveConfiguration\<close>: an API key, and a model and a URL that may be absent.
  \<open>setItem\<close> stores the text of its value, \<open>undefined\<close> for an absent one; the writes are taken
  to succeed.
\<close>

record config =
  cfg_apiKey :: string
  cfg_model :: "string option"
  cfg_baseUrl :: "string option"

definition text_of :: "string option \<Rightarrow> string" where
  \<comment> \<open>\<open>String(x)\<close> for an optional string\<close>
  "text_of x = (case x of None \<Rightarrow> ''undefined'' | Some v \<Rightarrow> v)"

definition saveConfiguration ::
    "string \<Rightarrow> config \<Rightarrow> localStorage \<times> LLMManager \<Rightarrow> js_error + (localStorage \<times> LLMManager)" where
  "saveConfiguration provider cfg w =
     (let ls = fst w; s = snd w
      in case lookup_provider (providers s) provider of
           None \<Rightarrow> Inl (Error (''Unknown provider: '' @ provider))
         | Some old \<Rightarrow>
             (let ls1 = ls(provider @ ''_api_key'' \<mapsto> cfg_apiKey cfg);
                  ls2 = ls1(provider @ ''_model'' \<mapsto> text_of (cfg_model cfg));
                  ls3 = (if truthy (cfg_baseUrl cfg)
                         then ls2(provider @ ''_api_url'' \<mapsto> the (cfg_baseUrl cfg))
                         else ls2);
                  new = old\<lparr>
                    apiKey := Some (cfg_apiKey cfg),
                    model := (case cfg_model cfg of Some m \<Rightarrow> m | None \<Rightarrow> model old),
                    baseUrl := (case cfg_baseUrl cfg of Some u \<Rightarrow> u | None \<Rightarrow> baseUrl old),
                    configured := True \<rparr>
              in Inr (ls3, s\<lparr> providers := assign_provider (providers s) provider new \<rparr>)))"

definition setCurrentProvider ::
    "string \<Rightarrow> localStorage \<times> LLMManager \<Rightarrow> js_error + (localStorage \<times> LLMManager)" where
  "setCurrentProvider provider w =
     (let ls = fst w; s = snd w
      in case lookup_provider (providers s) provider of
           None \<Rightarrow> Inl (Error (''Unknown provider: '' @ provider))
         | Some c \<Rightarrow>
             if \<not> configured c then Inl (Error (''Provider '' @ provider @ '' is not configured''))
             else Inr (ls(''current_llm_provider'' \<mapsto> provider),
                       s\<lparr> currentProvider := Some provider \<rparr>))"

subsection \<open>Requests to the provider\<close>

record message =
  role :: string
  content :: string

datatype request_body =
  OpenAIBody (body_model: string) (body_messages: "message list") (body_stream: bool)
  | OzwellBody (body_prompt: string) (body_stream: bool)

record http_request =
  url :: string
  authorization :: string
  body :: request_body

text \<open>
  What the OpenAI API returns for a tool call, and what \<open>generateResponse\<close> resolves to: the
  text of the reply, the message object of an OpenAI reply, or null or undefined (a reply
  whose message has no content).
\<close>

datatype arguments = ArgText string | ArgValue json

record function_call =
  call_id :: string
  call_type :: string
  function_name :: string
  function_arguments :: arguments

record assistant_message =
  msg_content :: "string option"
  tool_calls :: "function_call list option"

datatype llm_response =
  ResponseText string
  | ResponseMessage assistant_message
  | ResponseNull
  | ResponseUndefined

fun convertMessagesToPrompt_loop :: "string \<Rightarrow> message list \<Rightarrow> string" where
  "convertMessagesToPrompt_loop prompt [] = prompt"
| "convertMessagesToPrompt_loop prompt (m # ms) =
     convertMessagesToPrompt_loop
       (prompt @
         (if role m = ''system'' then ''System: '' @ content m @ [CHR 0x0A, CHR 0x0A]
          else if role m = ''user'' then ''Human: '' @ content m @ [CHR 0x0A, CHR 0x0A]
          else if role m = ''assistant'' then ''Assistant: '' @ content m @ [CHR 0x0A, CHR 0x0A]
          else content m @ [CHR 0x0A, CHR 0x0A]))
       ms"

definition convertMessagesToPrompt :: "message list \<Rightarrow> string" where
  "convertMessagesToPrompt ms = convertMessagesToPrompt_loop [] ms @ ''Assistant:''"

text \<open>
  The HTTP exchange is outside the program. \<open>reply\<close> is what \<open>handleStreamingResponse\<close> or
  \<open>handleNonStreamingResponse\<close> makes of it, should the request be sent: the response they
  return or the error they throw. A call returns its result and the requests it has sent.
\<close>

definition callOpenAI ::
    "message list \<Rightarrow> provider_config \<Rightarrow> bool \<Rightarrow> (js_error + llm_response)
      \<Rightarrow> (js_error + llm_response) \<times> http_request list" where
  "callOpenAI messages provider onChunk reply =
     (reply, [\<lparr> url = baseUrl provider,
                authorization = ''Bearer '' @ (case apiKey provider of None \<Rightarrow> ''null'' | Some k \<Rightarrow> k),
                body = OpenAIBody (model provider) messages onChunk \<rparr>])"

definition callOzwell ::
    "message list \<Rightarrow> provider_config \<Rightarrow> bool \<Rightarrow> (js_error + llm_response)
      \<Rightarrow> (js_error + llm_response) \<times> http_request list" where
  "callOzwell messages provider onChunk reply =
     (reply, [\<lparr> url = baseUrl provider,
                authorization = ''Bearer '' @ (case apiKey provider of None \<Rightarrow> ''null'' | Some k \<Rightarrow> k),
                body = OzwellBody (convertMessagesToPrompt messages) onChunk \<rparr>])"

definition LLMManager_generateResponse ::
    "message list \<Rightarrow> bool \<Rightarrow> (js_error + llm_response) \<Rightarrow> LLMManager
      \<Rightarrow> ((js_error + llm_response) \<times> http_request list) \<times> LLMManager" where
  "LLMManager_generateResponse messages onChunk reply s =
     (if \<not> truthy (currentProvider s) then ((Inl (Error ''No LLM provider selected''), []), s)
      else
        (let p = the (currentProvider s)
         in case lookup_provider (providers s) p of
              None \<Rightarrow>
                ((Inl (TypeError ''Cannot read properties of undefined (reading configured)''), []), s)
            | Some provider \<Rightarrow>
                if \<not> configured provider
                then ((Inl (Error (''Provider '' @ p @ '' is not configured'')), []), s)
                else if p = ''openai'' then (callOpenAI messages provider onChunk reply, s)
                else if p = ''ozwell'' then (callOzwell messages provider onChunk reply, s)
                else ((Inl (Error (''Unsupported provider: '' @ p)), []), s)))"

definition reload_after_save ::
    "string \<Rightarrow> config \<Rightarrow> localStorage \<times> LLMManager \<Rightarrow> js_error + (LLMManager \<times> LLMManager)" where
  \<comment> \<open>\<open>saveConfiguration\<close>, then a manager constructed on the storage it leaves: the manager
      that saved and the fresh one\<close>
  "reload_after_save provider cfg w =
     (case saveConfiguration provider cfg w of
        Inl err \<Rightarrow> Inl err
      | Inr (ls', s') \<Rightarrow> Inr (s', LLMManager_constructor ls'))"

definition known_provider :: "string \<Rightarrow> bool" where
  "known_provider p \<longleftrightarrow> p = ''openai'' \<or> p = ''ozwell''"

definition selection_ok :: "LLMManager \<Rightarrow> bool" where
  \<comment> \<open>what the constructor and \<open>setCurrentProvider\<close> leave in \<open>currentProvider\<close>: null or the
      name of a provider\<close>
  "selection_ok s \<longleftrightarrow>
     currentProvider s = None \<or> currentProvider s = Some ''openai'' \<or> currentProvider s = Some ''ozwell''"

definition guard_error :: "(js_error + llm_response) \<Rightarrow> bool" where
  \<comment> \<open>one of the two errors \<open>generateResponse\<close> throws before it calls a provider\<close>
  "guard_error r \<longleftrightarrow>
     r = Inl (Error ''No LLM provider selected'')
     \<or> r = Inl (Error ''Provider openai is not configured'')
     \<or> r = Inl (Error ''Provider ozwell is not configured'')"

definition empty_model_config :: config where
  "empty_model_config = \<lparr> cfg_apiKey = ''sk-test'', cfg_model = Some '''', cfg_baseUrl = None \<rparr>"

definition gpt4_config :: config where
  "gpt4_config = \<lparr> cfg_apiKey = ''sk-test'', cfg_model = Some ''gpt-4'', cfg_baseUrl = None \<rparr>"

definition hello :: "message list" where
  "hello = [\<lparr> role = ''user'', content = ''Hello'' \<rparr>]"

section \<open>Tool calls in a reply\<close>

record tool_call =
  tool_id :: "string option"
  tool_name :: string
  parameters :: json
  provider :: "string option"

fun scan_lines ::
    "(string \<Rightarrow> json option) \<Rightarrow> string list \<Rightarrow> string option \<times> json \<Rightarrow> string option \<times> json" where
  \<comment> \<open>the loop over the lines, on the variables \<open>toolCall\<close> and \<open>params\<close>\<close>
  "scan_lines parse [] vars = vars"
| "scan_lines parse (l # ls) vars =
     (let line = trim l
      in if startsWith line ''TOOL_CALL:''
         then scan_lines parse ls (Some (trim (replace_first ''TOOL_CALL:'' '''' line)), snd vars)
         else if startsWith line ''PARAMS:''
         then (let paramsStr = trim (replace_first ''PARAMS:'' '''' line)
               in scan_lines parse ls
                    (fst vars,
                     case parse paramsStr of
                       Some v \<Rightarrow> v
                     | None \<Rightarrow> js_string (remove_quotes paramsStr)))
         else scan_lines parse ls vars)"

definition parseOzwellToolCalls :: "(string \<Rightarrow> json option) \<Rightarrow> llm_response \<Rightarrow> tool_call list" where
  \<comment> \<open>\<open>LLMManager.parseOzwellToolCalls\<close>\<close>
  "parseOzwellToolCalls parse response =
     (case response of
        ResponseText text \<Rightarrow>
          (let vars = scan_lines parse (split_lines text) (None, JNull)
           in if truthy (fst vars)
              then [\<lparr> tool_id = None, tool_name = the (fst vars), parameters = snd vars,
                      provider = Some ''ozwell'' \<rparr>]
              else [])
      | _ \<Rightarrow> [])"

definition Ozwell_parseToolCalls ::
    "(string \<Rightarrow> json option) \<Rightarrow> llm_response \<Rightarrow> js_error + tool_call list" where
  \<comment> \<open>\<open>OzwellIntegration.parseToolCalls\<close>: no test of the type, so \<open>response.split\<close> throws on
      anything but a string\<close>
  "Ozwell_parseToolCalls parse response =
     (case response of
        ResponseText text \<Rightarrow>
          (let vars = scan_lines parse (split_lines text) (None, JNull)
           in if truthy (fst vars)
              then Inr [\<lparr> tool_id = None, tool_name = the (fst vars), parameters = snd vars,
                          provider = None \<rparr>]
              else Inr [])
      | _ \<Rightarrow> Inl (TypeError ''response.split is not a function''))"

fun parseOpenAIToolCalls_loop :: "(string \<Rightarrow> json option) \<Rightarrow> function_call list \<Rightarrow> tool_call list" where
  \<comment> \<open>a call whose arguments do not parse is logged and left out\<close>
  "parseOpenAIToolCalls_loop parse [] = []"
| "parseOpenAIToolCalls_loop parse (c # cs) =
     (if call_type c = ''function''
      then (case (case function_arguments c of
                    ArgText t \<Rightarrow> parse t
                  | ArgValue v \<Rightarrow> Some v) of
              Some args \<Rightarrow>
                \<lparr> tool_id = Some (call_id c), tool_name = function_name c, parameters = args,
                  provider = Some ''openai'' \<rparr> # parseOpenAIToolCalls_loop parse cs
            | None \<Rightarrow> parseOpenAIToolCalls_loop parse cs)
      else parseOpenAIToolCalls_loop parse cs)"

definition parseOpenAIToolCalls ::
    "(string \<Rightarrow> json option) \<Rightarrow> llm_response \<Rightarrow> js_error + tool_call list" where
  \<comment> \<open>\<open>typeof null\<close> is \<open>object\<close>, so null reaches \<open>response.tool_calls\<close> and throws\<close>
  "parseOpenAIToolCalls parse response =
     (case response of
        ResponseMessage m \<Rightarrow>
          (case tool_calls m of
             Some calls \<Rightarrow> Inr (parseOpenAIToolCalls_loop parse calls)
           | None \<Rightarrow> Inr [])
      | ResponseNull \<Rightarrow> Inl (TypeError ''Cannot read properties of null (reading tool_calls)'')
      | _ \<Rightarrow> Inr [])"

definition LLMManager_parseToolCalls ::
    "(string \<Rightarrow> json option) \<Rightarrow> llm_response \<Rightarrow> string option \<Rightarrow> LLMManager
      \<Rightarrow> js_error + tool_call list" where
  "LLMManager_parseToolCalls parse response prov s =
     (let current = (if truthy prov then prov else currentProvider s)
      in if current = Some ''openai'' then parseOpenAIToolCalls parse response
         else if current = Some ''ozwell'' then Inr (parseOzwellToolCalls parse response)
         else Inr [])"

text \<open>The lines the heuristic looks at, and what it reads off them, in the words of the specification.\<close>

definition tool_lines :: "string \<Rightarrow> string list" where
  \<comment> \<open>the trimmed lines that start with \<open>TOOL_CALL:\<close>, in order\<close>
  "tool_lines text = filter (\<lambda>l. startsWith l ''TOOL_CALL:'') (map trim (split_lines text))"

definition params_lines :: "string \<Rightarrow> string list" where
  \<comment> \<open>the trimmed lines that start with \<open>PARAMS:\<close>, in order\<close>
  "params_lines text = filter (\<lambda>l. startsWith l ''PARAMS:'') (map trim (split_lines text))"

definition last_tool_name :: "string \<Rightarrow> string" where
  \<comment> \<open>the trimmed text after \<open>TOOL_CALL:\<close> on the last such line\<close>
  "last_tool_name text = trim (drop (length ''TOOL_CALL:'') (last (tool_lines text)))"

definition last_params :: "(string \<Rightarrow> json option) \<Rightarrow> string \<Rightarrow> json" where
  \<comment> \<open>null without a \<open>PARAMS:\<close> line; else the trimmed rest of the last one, parsed as JSON
      or, when that fails, with its double quotes removed\<close>
  "last_params parse text =
     (if params_lines text = [] then JNull
      else (let r = trim (drop (length ''PARAMS:'') (last (params_lines text)))
            in case parse r of Some v \<Rightarrow> v | None \<Rightarrow> js_string (remove_quotes r)))"

definition name_of :: "string \<Rightarrow> string" where
  "name_of line = trim (drop (length ''TOOL_CALL:'') line)"

definition value_of :: "(string \<Rightarrow> json option) \<Rightarrow> string \<Rightarrow> json" where
  "value_of parse line =
     (let r = trim (drop (length ''PARAMS:'') line)
      in case parse r of Some v \<Rightarrow> v | None \<Rightarrow> js_string (remove_quotes r))"

definition is_text :: "llm_response \<Rightarrow> bool" where
  "is_text r = (case r of ResponseText _ \<Rightarrow> True | _ \<Rightarrow> False)"

definition getContext_reply :: string where
  \<comment> \<open>what \<open>simulateOzwellAPI\<close> answers to a request for the patient's data\<close>
  "getContext_reply =
     ''I'' @ [CHR 0x27] @ ''ll retrieve the current patient information for you.''
       @ [CHR 0x0A, CHR 0x0A] @ ''TOOL_CALL: getContext'' @ [CHR 0x0A] @ ''PARAMS: {}''"

section \<open>The chat client (MCPClient)\<close>

record MCPClient =
  llmManager :: LLMManager
  chatHistory :: "message list"
  requestCounter :: nat
  processingMessage :: bool

text \<open>
  What the client does to the world: messages posted to the window, and lines put on the
  page. A line is recorded by its kind and the data it shows, not by its text.
\<close>

datatype posted =
  McpLog string
  | McpExecuteTool (requestId: nat) (toolName: string) (tool_parameters: json)

datatype shown =
  Status string
  | GettingResponse
  | NoModelSelected
  | NotConfigured
  | SuggestsTool string tool_call
  | SuggestsTools string "tool_call list"
  | DirectResponse string
  | AssistantText string
  | FallingBack
  | RequestedExecution string

datatype event = Post posted | Show "shown" | Fetch http_request

definition error_text :: "js_error \<Rightarrow> string" where
  \<comment> \<open>\<open>error.message\<close>\<close>
  "error_text e = (case e of TypeError m \<Rightarrow> m | Error m \<Rightarrow> m)"

definition getProviderName :: "LLMManager \<Rightarrow> string \<Rightarrow> string" where
  \<comment> \<open>\<open>this.providers[provider]?.name || provider\<close>\<close>
  "getProviderName s p =
     (case lookup_provider (providers s) p of
        None \<Rightarrow> p
      | Some c \<Rightarrow> if display_name c = [] then p else display_name c)"

definition log_event :: "string \<Rightarrow> event" where
  \<comment> \<open>\<open>this.log(message)\<close> posts an \<open>mcp-log\<close> message\<close>
  "log_event m = Post (McpLog m)"

definition executeToolViaMCP :: "string \<Rightarrow> json \<Rightarrow> MCPClient \<Rightarrow> event list \<times> MCPClient" where
  "executeToolViaMCP name params c =
     (let rid = Suc (requestCounter c)
      in ([Show (Status ''executing''),
           log_event (''Tool Call: '' @ name),
           Post (McpExecuteTool rid name params),
           Show (RequestedExecution name)],
          c\<lparr> requestCounter := rid \<rparr>))"

definition handle_llmError :: "js_error \<Rightarrow> MCPClient \<Rightarrow> event list \<times> MCPClient" where
  \<comment> \<open>the \<open>catch (llmError)\<close> block\<close>
  "handle_llmError err c =
     (if str_includes (error_text err) ''No LLM provider selected'' then ([Show NoModelSelected], c)
      else if str_includes (error_text err) ''not configured'' then ([Show NotConfigured], c)
      else (let r = executeToolViaMCP ''getContext'' (JObject []) c
            in (Show FallingBack # fst r, snd r)))"

fun objects_text :: "nat \<Rightarrow> string" where
  \<comment> \<open>an array of that many objects in a template literal\<close>
  "objects_text 0 = []"
| "objects_text (Suc 0) = ''[object Object]''"
| "objects_text (Suc (Suc n)) = ''[object Object],'' @ objects_text (Suc n)"

definition response_text :: "llm_response \<Rightarrow> js_error + string" where
  \<comment> \<open>the text shown for a reply without tool calls; reading \<open>content\<close> of null throws\<close>
  "response_text r =
     (case r of
        ResponseNull \<Rightarrow> Inl (TypeError ''Cannot read properties of null (reading content)'')
      | ResponseMessage m \<Rightarrow>
          Inr (if truthy (msg_content m) then the (msg_content m)
               else ''I received your message but couldn'' @ [CHR 0x27]
                      @ ''t generate a proper response.'')
      | ResponseText t \<Rightarrow> Inr t
      | ResponseUndefined \<Rightarrow>
          Inr (''I received your message but couldn'' @ [CHR 0x27]
                 @ ''t generate a proper response.''))"

definition processMessage_try ::
    "(string \<Rightarrow> json option) \<Rightarrow> (js_error + llm_response) \<Rightarrow> MCPClient \<Rightarrow> event list \<times> MCPClient" where
  \<comment> \<open>the inner \<open>try\<close> block with its \<open>catch (llmError)\<close>\<close>
  "processMessage_try parse reply c =
     (let current = currentProvider (llmManager c)
      in if \<not> truthy current then ([Show NoModelSelected], c)
         else
           (let called = fst (LLMManager_generateResponse (chatHistory c) False reply (llmManager c));
                fetched = map Fetch (snd called)
            in case fst called of
                 Inl err \<Rightarrow> (let h = handle_llmError err c in (fetched @ fst h, snd h))
               | Inr llmResponse \<Rightarrow>
                   (case LLMManager_parseToolCalls parse llmResponse current (llmManager c) of
                      Inl err \<Rightarrow> (let h = handle_llmError err c in (fetched @ fst h, snd h))
                    | Inr toolCalls \<Rightarrow>
                        (let providerName = getProviderName (llmManager c) (the current)
                         in if toolCalls \<noteq> [] then
                              (let logged = log_event (''AI Suggested Tool Calls from '' @ providerName
                                              @ '':'' @ objects_text (length toolCalls) @ '' '')
                               in if length toolCalls = 1 then
                                    (let x = executeToolViaMCP (tool_name (hd toolCalls))
                                               (parameters (hd toolCalls)) c
                                     in (fetched @ [logged, Show (SuggestsTool providerName (hd toolCalls))]
                                           @ fst x, snd x))
                                  else if list_ex (\<lambda>tc. parameters tc = JNull) toolCalls then
                                    (let h = handle_llmError
                                               (TypeError ''Cannot convert undefined or null to object'') c
                                     in (fetched @ [logged] @ fst h, snd h))
                                  else
                                    (let x = executeToolViaMCP (tool_name (hd toolCalls))
                                               (parameters (hd toolCalls)) c
                                     in (fetched @ [logged, Show (SuggestsTools providerName toolCalls)]
                                           @ fst x, snd x)))
                            else
                              (case response_text llmResponse of
                                 Inl err \<Rightarrow>
                                   (let h = handle_llmError err c
                                    in (fetched @ [Show (DirectResponse providerName)] @ fst h, snd h))
                               | Inr responseText \<Rightarrow>
                                   (fetched @ [Show (DirectResponse providerName),
                                               Show (AssistantText responseText)],
                                    c\<lparr> chatHistory := chatHistory c
                                         @ [\<lparr> role = ''assistant'', content = responseText \<rparr>] \<rparr>))))))"

definition processMessage ::
    "(string \<Rightarrow> json option) \<Rightarrow> (js_error + llm_response) \<Rightarrow> string \<Rightarrow> MCPClient
      \<Rightarrow> event list \<times> MCPClient" where
  \<comment> \<open>a call made while another is in progress returns at once; \<open>finally\<close> clears the flag\<close>
  "processMessage parse reply message c =
     (if processingMessage c then ([], c)
      else (let r = processMessage_try parse reply (c\<lparr> processingMessage := True \<rparr>)
            in (Show GettingResponse # fst r, (snd r)\<lparr> processingMessage := False \<rparr>)))"

fun execute_posts :: "event list \<Rightarrow> posted list" where
  \<comment> \<open>the \<open>mcp-execute-tool\<close> messages among the events, in order\<close>
  "execute_posts [] = []"
| "execute_posts (Post (McpExecuteTool rid name params) # es) =
     McpExecuteTool rid name params # execute_posts es"
| "execute_posts (e # es) = execute_posts es"

text \<open>A client on a configured OpenAI provider, and a reply of that provider with two tool calls.\<close>

definition openai_storage :: localStorage where
  "openai_storage = [''openai_api_key'' \<mapsto> ''sk-test'', ''current_llm_provider'' \<mapsto> ''openai'']"

definition openai_client :: MCPClient where
  "openai_client = \<lparr> llmManager = LLMManager_constructor openai_storage,
                     chatHistory = [\<lparr> role = ''user'', content = ''add ibuprofen'' \<rparr>],
                     requestCounter = 0, processingMessage = False \<rparr>"

definition one_call_reply :: llm_response where
  "one_call_reply = ResponseMessage \<lparr> msg_content = None, tool_calls = Some [
     \<lparr> call_id = ''call_1'', call_type = ''function'', function_name = ''getContext'',
       function_arguments = ArgText ''{}'' \<rparr>] \<rparr>"

definition two_calls_reply :: llm_response where
  "two_calls_reply = ResponseMessage \<lparr> msg_content = None, tool_calls = Some [
     \<lparr> call_id = ''call_1'', call_type = ''function'', function_name = ''getContext'',
       function_arguments = ArgText ''{}'' \<rparr>,
     \<lparr> call_id = ''call_2'', call_type = ''function'', function_name = ''discontinueMedication'',
       function_arguments = ArgText ''{}'' \<rparr>] \<rparr>"

section \<open>The medication-request classifier\<close>

subsection \<open>Regular expressions\<close>

text \<open>
  The part of the regular-expression language the classifier uses: character classes,
  sequence, alternation, repetition. \<open>Never\<close> matches nothing; it only arises in derivatives.
\<close>

datatype rx =
  Never
  | Empty
  | Class "char \<Rightarrow> bool"
  | Then rx rx
  | Or rx rx
  | Many rx

text \<open>The strings a regular expression matches as a whole.\<close>

inductive in_lang :: "rx \<Rightarrow> string \<Rightarrow> bool" where
  in_Empty: "in_lang Empty []"
| in_Class: "P c \<Longrightarrow> in_lang (Class P) [c]"
| in_Then: "in_lang r u \<Longrightarrow> in_lang s v \<Longrightarrow> in_lang (Then r s) (u @ v)"
| in_Or_left: "in_lang r u \<Longrightarrow> in_lang (Or r s) u"
| in_Or_right: "in_lang s u \<Longrightarrow> in_lang (Or r s) u"
| in_Many_none: "in_lang (Many r) []"
| in_Many_more: "in_lang r u \<Longrightarrow> in_lang (Many r) v \<Longrightarrow> in_lang (Many r) (u @ v)"

definition contains_match :: "rx \<Rightarrow> string \<Rightarrow> bool" where
  \<comment> \<open>some piece of the string is matched: what an unanchored pattern asks\<close>
  "contains_match r s \<longleftrightarrow> (\<exists>u v w. s = u @ v @ w \<and> in_lang r v)"

definition contains :: "string \<Rightarrow> string \<Rightarrow> bool" where
  \<comment> \<open>the string contains the keyword\<close>
  "contains s k \<longleftrightarrow> (\<exists>u w. s = u @ k @ w)"

text \<open>\<open>RegExp.prototype.test\<close>, by derivatives: try every piece of the string.\<close>

fun nullable :: "rx \<Rightarrow> bool" where
  "nullable Never = False"
| "nullable Empty = True"
| "nullable (Class P) = False"
| "nullable (Then r s) = (nullable r \<and> nullable s)"
| "nullable (Or r s) = (nullable r \<or> nullable s)"
| "nullable (Many r) = True"

fun deriv :: "char \<Rightarrow> rx \<Rightarrow> rx" where
  "deriv c Never = Never"
| "deriv c Empty = Never"
| "deriv c (Class P) = (if P c then Empty else Never)"
| "deriv c (Then r s) =
     (if nullable r then Or (Then (deriv c r) s) (deriv c s) else Then (deriv c r) s)"
| "deriv c (Or r s) = Or (deriv c r) (deriv c s)"
| "deriv c (Many r) = Then (deriv c r) (Many r)"

fun matches :: "rx \<Rightarrow> string \<Rightarrow> bool" where
  "matches r [] = nullable r"
| "matches r (c # cs) = matches (deriv c r) cs"

definition regex_test :: "rx \<Rightarrow> string \<Rightarrow> bool" where
  "regex_test r s = list_ex (\<lambda>t. list_ex (matches r) (prefixes t)) (suffixes s)"

subsection \<open>The dose pattern and the keyword lists\<close>

definition letter :: "char \<Rightarrow> rx" where
  \<comment> \<open>a lower-case letter of a pattern with the flag \<open>i\<close>: itself or its capital\<close>
  "letter c = Class (\<lambda>x. lowerChar x = c)"

fun word :: "string \<Rightarrow> rx" where
  "word [] = Empty"
| "word (c # cs) = Then (letter c) (word cs)"

definition dose_pattern :: rx where
  \<comment> \<open>\<open>/\d+\s*(mg|mcg|g|ml|cc|units?)/i\<close>\<close>
  "dose_pattern =
     Then (Then (Class is_digit) (Many (Class is_digit)))
       (Then (Many (Class isWhiteSpace))
          (Or (word ''mg'')
            (Or (word ''mcg'')
              (Or (word ''g'')
                (Or (word ''ml'')
                  (Or (word ''cc'')
                    (Then (word ''unit'') (Or (letter CHR ''s'') Empty))))))))"

definition addKeywords :: "string list" where
  "addKeywords = [''add'', ''prescribe'', ''start'', ''give'', ''put on'', ''begin'', ''initiate'']"

definition medicationKeywords :: "string list" where
  "medicationKeywords =
     [''medication'', ''med'', ''drug'', ''prescription'', ''pill'', ''tablet'', ''capsule'']"

definition specificMeds :: "string list" where
  "specificMeds =
     [''aspirin'', ''tylenol'', ''ibuprofen'', ''acetaminophen'', ''paracetamol'', ''lisinopril'',
      ''metformin'']"

definition isMedicationRequest :: "string \<Rightarrow> bool" where
  "isMedicationRequest msg =
     (let hasAddKeyword = list_ex (\<lambda>keyword. str_includes msg keyword) addKeywords;
          hasMedicationKeyword = (list_ex (\<lambda>keyword. str_includes msg keyword) medicationKeywords
                                  \<or> list_ex (\<lambda>med. str_includes msg med) specificMeds);
          hasDosePattern = regex_test dose_pattern msg
      in (hasAddKeyword \<and> hasMedicationKeyword) \<or> hasDosePattern)"

section \<open>The Ozwell integration (OzwellIntegration)\<close>

record tools_context =
  availableTools :: "string list option"

record OzwellIntegration =
  oz_apiKey :: "string option"
  oz_baseUrl :: string
  oz_model :: string
  useSimulationMode :: bool
  toolsContext :: "tools_context option"

definition new_OzwellIntegration :: OzwellIntegration where
  \<comment> \<open>the fields the constructor sets, before the \<open>.env\<close> file has been fetched\<close>
  "new_OzwellIntegration = \<lparr>
     oz_apiKey = None,
     oz_baseUrl = ''https://ai.bluehive.com/api/v1/completion'',
     oz_model = ''ozwell-medical-v1'',
     useSimulationMode = True,
     toolsContext = None \<rparr>"

subsection \<open>The \<open>.env\<close> file\<close>

definition is_key_start :: "char \<Rightarrow> bool" where
  \<comment> \<open>\<open>[A-Z_]\<close>\<close>
  "is_key_start c = ((65 \<le> (of_char c :: nat) \<and> (of_char c :: nat) \<le> 90) \<or> c = CHR ''_'')"

definition is_key_char :: "char \<Rightarrow> bool" where
  \<comment> \<open>\<open>[A-Z0-9_]\<close>\<close>
  "is_key_char c = (is_key_start c \<or> is_digit c)"

definition is_line_terminator :: "char \<Rightarrow> bool" where
  \<comment> \<open>what \<open>.\<close> does not match\<close>
  "is_line_terminator c = (c = CHR 0x0A \<or> c = CHR 0x0D)"

definition match_env_line :: "string \<Rightarrow> (string \<times> string) option" where
  \<comment> \<open>\<open>line.match(/^([A-Z_][A-Z0-9_]*)\s*=\s*(.*)$/)\<close>: the key and the value\<close>
  "match_env_line line =
     (case line of
        [] \<Rightarrow> None
      | c # cs \<Rightarrow>
          if \<not> is_key_start c then None
          else (case dropWhile isWhiteSpace (dropWhile is_key_char cs) of
                  [] \<Rightarrow> None
                | e # rest \<Rightarrow>
                    if e \<noteq> CHR ''='' then None
                    else (let v = dropWhile isWhiteSpace rest
                          in if list_ex is_line_terminator v then None
                             else Some (c # takeWhile is_key_char cs, v))))"

definition endsWith :: "string \<Rightarrow> string \<Rightarrow> bool" where
  "endsWith s t = suffix t s"

definition strip_quotes :: "string \<Rightarrow> string" where
  \<comment> \<open>\<open>slice(1, -1)\<close> of a value between two double or two single quotes\<close>
  "strip_quotes v =
     (if (startsWith v [CHR 0x22] \<and> endsWith v [CHR 0x22])
         \<or> (startsWith v [CHR 0x27] \<and> endsWith v [CHR 0x27])
      then butlast (drop 1 v) else v)"

fun parseEnvFile_loop :: "string list \<Rightarrow> (string \<rightharpoonup> string) \<Rightarrow> (string \<rightharpoonup> string)" where
  "parseEnvFile_loop [] envVars = envVars"
| "parseEnvFile_loop (line # lines) envVars =
     (let trimmedLine = trim line
      in if trimmedLine = [] \<or> startsWith trimmedLine ''#'' \<or> startsWith trimmedLine ''//''
         then parseEnvFile_loop lines envVars
         else (case match_env_line trimmedLine of
                 Some (key, v) \<Rightarrow> parseEnvFile_loop lines (envVars(key \<mapsto> strip_quotes (trim v)))
               | None \<Rightarrow> parseEnvFile_loop lines envVars))"

definition parseEnvFile :: "string \<Rightarrow> (string \<rightharpoonup> string)" where
  "parseEnvFile envContent = parseEnvFile_loop (split_lines envContent) Map.empty"

text \<open>What \<open>fetch('../.env')\<close> comes to: a failure, a response that is not ok, or the text.\<close>

datatype env_fetch = EnvFetchFailed | EnvNotOk | EnvContent string

definition loadEnvironmentVariables :: "env_fetch \<Rightarrow> OzwellIntegration \<Rightarrow> OzwellIntegration" where
  \<comment> \<open>every error is caught and logged\<close>
  "loadEnvironmentVariables fetched s =
     (case fetched of
        EnvContent envContent \<Rightarrow>
          (let envVars = parseEnvFile envContent;
               s1 = (if truthy (envVars ''OZWELL_API_KEY'')
                     then s\<lparr> oz_apiKey := envVars ''OZWELL_API_KEY'' \<rparr> else s);
               s2 = (if truthy (envVars ''OZWELL_BASE_URL'')
                     then s1\<lparr> oz_baseUrl := the (envVars ''OZWELL_BASE_URL'') \<rparr> else s1);
               s3 = (if truthy (envVars ''OZWELL_MODEL'')
                     then s2\<lparr> oz_model := the (envVars ''OZWELL_MODEL'') \<rparr> else s2)
           in if envVars ''FORCE_SIMULATION_MODE'' = Some ''true''
              then s3\<lparr> useSimulationMode := True \<rparr> else s3)
      | _ \<Rightarrow> s)"

subsection \<open>Simulated and real responses\<close>

definition tool_call_text :: "string \<Rightarrow> string \<Rightarrow> string \<Rightarrow> string" where
  \<comment> \<open>a sentence, an empty line, and the two directive lines\<close>
  "tool_call_text sentence tool params =
     sentence @ [CHR 0x0A, CHR 0x0A] @ ''TOOL_CALL: '' @ tool @ [CHR 0x0A] @ ''PARAMS: '' @ params"

definition json_field :: "string \<Rightarrow> string \<Rightarrow> string" where
  \<comment> \<open>\<open>"key": "value"\<close>\<close>
  "json_field k v = [CHR 0x22] @ k @ [CHR 0x22] @ '': '' @ [CHR 0x22] @ v @ [CHR 0x22]"

definition simulateOzwellAPI :: "message list \<Rightarrow> OzwellIntegration \<Rightarrow> string" where
  "simulateOzwellAPI messages s =
     (let lastMessage = (if messages = [] then [] else content (last messages));
          msg = toLowerCase lastMessage
      in if (case toolsContext s of None \<Rightarrow> True | Some tc \<Rightarrow> availableTools tc = None)
         then tool_call_text
                (''I need to connect to the medical system first. ''
                   @ ''Let me get the current patient information.'')
                ''getContext'' ''{}''
         else if str_includes msg ''prescribe'' \<or> str_includes msg ''add'' \<or> str_includes msg ''give''
                 \<or> (str_includes msg ''dolo''
                      \<and> (str_includes msg ''650'' \<or> str_includes msg ''paracetamol''))
         then (let medicationName = ''Paracetamol'';
                   dose = (if str_includes msg ''dolo'' \<and> str_includes msg ''650'' then ''650mg''
                           else if str_includes msg ''paracetamol''
                           then (if str_includes msg ''650'' then ''650mg'' else ''500mg'')
                           else ''650mg'');
                   frequency = ''every 6-8 hours as needed'';
                   indication = ''Pain and fever relief''
               in tool_call_text
                    (''I'' @ [CHR 0x27] @ ''ll add '' @ medicationName @ '' '' @ dose
                       @ '' to the patient'' @ [CHR 0x27] @ ''s medication list.'')
                    ''addMedication''
                    (''{'' @ json_field ''name'' medicationName @ '', '' @ json_field ''dose'' dose
                       @ '', '' @ json_field ''frequency'' frequency
                       @ '', '' @ json_field ''indication'' indication @ ''}''))
         else if str_includes msg ''allergy'' \<or> str_includes msg ''allergic''
         then tool_call_text
                (''I'' @ [CHR 0x27] @ ''ll help you add an allergy to the patient'' @ [CHR 0x27]
                   @ ''s profile. Let me first check their current information.'')
                ''getContext'' ''{}''
         else if str_includes msg ''context'' \<or> str_includes msg ''patient''
                 \<or> str_includes msg ''information'' \<or> str_includes msg ''show''
                 \<or> str_includes msg ''current''
         then tool_call_text
                (''I'' @ [CHR 0x27] @ ''ll retrieve the current patient information for you.'')
                ''getContext'' ''{}''
         else tool_call_text
                (''I'' @ [CHR 0x27] @ ''ll help you with that. Let me first check the patient''
                   @ [CHR 0x27] @ ''s current medical information to provide the safest and ''
                   @ ''most appropriate care.'')
                ''getContext'' ''{}'')"

text \<open>
  \<open>api\<close> is what \<open>callOzwellAPI\<close> comes to, should it be called: the text it returns or the
  error it throws. A call of \<open>generateResponse\<close> yields its result, whether it has called the
  API, and the new state.
\<close>

record ozwell_outcome =
  outcome :: "js_error + string"
  api_called :: bool
  state_after :: OzwellIntegration

definition load_if_needed :: "env_fetch \<Rightarrow> OzwellIntegration \<Rightarrow> OzwellIntegration" where
  \<comment> \<open>\<open>if (!this.apiKey) await this.loadEnvironmentVariables()\<close>\<close>
  "load_if_needed fetched s =
     (if \<not> truthy (oz_apiKey s) then loadEnvironmentVariables fetched s else s)"

definition Ozwell_generateResponse ::
    "message list \<Rightarrow> env_fetch \<Rightarrow> (js_error + string) \<Rightarrow> OzwellIntegration \<Rightarrow> ozwell_outcome" where
  "Ozwell_generateResponse messages fetched api s =
     (let s1 = load_if_needed fetched s;
          s2 = (if \<not> truthy (oz_apiKey s1) \<and> \<not> useSimulationMode s1
                then s1\<lparr> useSimulationMode := True \<rparr> else s1)
      in if useSimulationMode s2
         then \<lparr> outcome = Inr (simulateOzwellAPI messages s2), api_called = False,
                state_after = s2 \<rparr>
         else (case api of
                 Inr response \<Rightarrow> \<lparr> outcome = Inr response, api_called = True, state_after = s2 \<rparr>
               | Inl err \<Rightarrow>
                   \<lparr> outcome = Inr (simulateOzwellAPI messages s2), api_called = True,
                     state_after = s2 \<rparr>))"

text \<open>An integration that has a key and calls the API, and a request.\<close>

definition live_OzwellIntegration :: OzwellIntegration where
  "live_OzwellIntegration =
     new_OzwellIntegration\<lparr> oz_apiKey := Some ''BHSK-test'', useSimulationMode := False \<rparr>"

definition dolo_request :: "message list" where
  "dolo_request = [\<lparr> role = ''user'', content = ''Please add Dolo 650'' \<rparr>]"

section \<open>Properties of the medical record store\<close>

lemma find_index_None: "find_index P xs = None \<longleftrightarrow> (\<forall>x\<in>set xs. \<not> P x)"
  by (induction xs) auto

lemma find_index_Some:
  "find_index P xs = Some i \<Longrightarrow> i < length xs \<and> P (xs ! i)"
proof (induction xs arbitrary: i)
  case Nil
  then show ?case by simp
next
  case (Cons x xs)
  show ?case
  proof (cases "P x")
    case True
    with Cons.prems show ?thesis by simp
  next
    case False
    with Cons.prems obtain k where k: "find_index P xs = Some k" "i = Suc k"
      by auto
    from Cons.IH [OF k(1)] k(2) show ?thesis
      by simp
  qed
qed

lemma find_active_None:
  "find_active medId meds = None \<longleftrightarrow> (\<forall>med\<in>set meds. \<not> matches_active medId med)"
proof (cases "find_index (\<lambda>med. med_id med = medId \<and> med_status med = ''active'') meds")
  case None
  then have no_id: "\<forall>med\<in>set meds. \<not> (med_id med = medId \<and> med_status med = ''active'')"
    by (simp add: find_index_None)
  have "find_active medId meds =
          find_index (\<lambda>med. toLowerCase (med_name med) = toLowerCase medId
                            \<and> med_status med = ''active'') meds"
    by (simp add: find_active_def None)
  with no_id show ?thesis
    by (auto simp: find_index_None matches_active_def)
next
  case (Some j)
  from find_index_Some [OF Some] have "meds ! j \<in> set meds" "matches_active medId (meds ! j)"
    by (simp_all add: matches_active_def)
  with Some show ?thesis
    by (auto simp: find_active_def)
qed

lemma find_active_Some:
  assumes "find_active medId meds = Some i"
  shows "i < length meds \<and> matches_active medId (meds ! i)"
proof (cases "find_index (\<lambda>med. med_id med = medId \<and> med_status med = ''active'') meds")
  case None
  with assms have "find_index (\<lambda>med. toLowerCase (med_name med) = toLowerCase medId
                                   \<and> med_status med = ''active'') meds = Some i"
    by (simp add: find_active_def)
  from find_index_Some [OF this] show ?thesis
    by (simp add: matches_active_def)
next
  case (Some j)
  with assms have "j = i" by (simp add: find_active_def)
  with find_index_Some [OF Some] show ?thesis
    by (simp add: matches_active_def)
qed

lemma saveToStorage_patientData: "patientData (saveToStorage e s) = patientData s"
  by (simp add: saveToStorage_def)

lemma checkAllergies_loop_None:
  "checkAllergies_loop med as = None \<longleftrightarrow> (\<forall>a\<in>set as. \<not> allergy_conflict med a)"
  by (induction as) (auto simp: allergy_conflict_def Let_def)

lemma checkAllergies_loop_Some:
  "checkAllergies_loop med as = Some a \<Longrightarrow> a \<in> set as \<and> allergy_conflict med a"
  by (induction as) (auto simp: allergy_conflict_def Let_def split: if_splits)

lemma addMedication_duplicate:
  assumes "\<exists>med\<in>set (medications (patientData s)). active_duplicate (md_name m) med"
  shows "\<exists>msg. addMedication e m s = (Failure msg, s)"
proof -
  from assms have "find (\<lambda>med. toLowerCase (med_name med) = toLowerCase (md_name m)
                                  \<and> med_status med = ''active'') (medications (patientData s)) \<noteq> None"
    by (auto simp: find_None_iff active_duplicate_def)
  then show ?thesis
    by (auto simp: addMedication_def)
qed

lemma addMedication_fresh:
  assumes "\<forall>med\<in>set (medications (patientData s)). \<not> active_duplicate (md_name m) med"
  shows "\<exists>new msg. med_status new = ''active'' \<and> med_name new = md_name m \<and>
           addMedication e m s =
             (Success \<lparr> added_medication = new, added_message = msg,
                warnings = (case checkAllergies s (md_name m) of
                   Some a \<Rightarrow> [''ALLERGY WARNING: Patient allergic to '' @ allergen a]
                 | None \<Rightarrow> []) \<rparr>,
              saveToStorage e
                (s\<lparr> patientData := (patientData s)\<lparr> medications := medications (patientData s) @ [new] \<rparr> \<rparr>))"
proof -
  from assms have "find (\<lambda>med. toLowerCase (med_name med) = toLowerCase (md_name m)
                                  \<and> med_status med = ''active'') (medications (patientData s)) = None"
    by (auto simp: find_None_iff active_duplicate_def)
  then show ?thesis
    by (simp add: addMedication_def Let_def)
qed

text \<open>
  C3. \<open>addMedication\<close> fails exactly when the record holds an active medication of the same
  name (letter case aside). A failing call leaves the manager, and so the whole patient
  record, as it was. A successful call appends one medication, active and with the given
  name, to the medications and changes no other field of the record.
\<close>

theorem addMedication_duplicate_check:
  "(\<not> success (fst (addMedication e m s)) \<longleftrightarrow>
      (\<exists>med\<in>set (medications (patientData s)). active_duplicate (md_name m) med))
   \<and> (\<not> success (fst (addMedication e m s)) \<longrightarrow> snd (addMedication e m s) = s)
   \<and> (success (fst (addMedication e m s)) \<longrightarrow>
        (\<exists>new. med_status new = ''active'' \<and> med_name new = md_name m \<and>
           patientData (snd (addMedication e m s)) =
             (patientData s)\<lparr> medications := medications (patientData s) @ [new] \<rparr>))"
proof (cases "\<exists>med\<in>set (medications (patientData s)). active_duplicate (md_name m) med")
  case True
  from addMedication_duplicate [OF True] obtain msg where "addMedication e m s = (Failure msg, s)"
    by blast
  with True show ?thesis by simp
next
  case False
  then have "\<forall>med\<in>set (medications (patientData s)). \<not> active_duplicate (md_name m) med"
    by simp
  from addMedication_fresh [OF this] obtain new msg where
    new: "med_status new = ''active''" "med_name new = md_name m" and
    r: "addMedication e m s =
          (Success \<lparr> added_medication = new, added_message = msg,
             warnings = (case checkAllergies s (md_name m) of
                Some a \<Rightarrow> [''ALLERGY WARNING: Patient allergic to '' @ allergen a]
              | None \<Rightarrow> []) \<rparr>,
           saveToStorage e
             (s\<lparr> patientData := (patientData s)\<lparr> medications := medications (patientData s) @ [new] \<rparr> \<rparr>))"
    by blast
  have "patientData (snd (addMedication e m s)) =
          (patientData s)\<lparr> medications := medications (patientData s) @ [new] \<rparr>"
    by (simp add: r saveToStorage_patientData)
  with new False r show ?thesis by auto
qed

theorem addMedication_duplicate_check_witness:
  "\<not> success (fst (addMedication demo_env metformin_order demo_manager))
   \<and> snd (addMedication demo_env metformin_order demo_manager) = demo_manager
   \<and> success (fst (addMedication demo_env ibuprofen_order demo_manager))
   \<and> length (medications (patientData (snd (addMedication demo_env ibuprofen_order demo_manager)))) = 3"
proof -
  have lower: "toLowerCase ''Lisinopril'' = ''lisinopril''" "toLowerCase ''Metformin'' = ''metformin''"
    "toLowerCase ''METFORMIN'' = ''metformin''" "toLowerCase ''Ibuprofen'' = ''ibuprofen''"
    by code_simp+
  have dup: "\<exists>med\<in>set (medications (patientData demo_manager)). active_duplicate (md_name metformin_order) med"
    by (simp add: demo_manager_def demo_patientData_def active_duplicate_def metformin_order_def lower)
  have fresh: "\<not> (\<exists>med\<in>set (medications (patientData demo_manager)). active_duplicate (md_name ibuprofen_order) med)"
    by (simp add: demo_manager_def demo_patientData_def active_duplicate_def ibuprofen_order_def lower)
  have len: "length (medications (patientData demo_manager)) = 2"
    by (simp add: demo_manager_def demo_patientData_def)
  from addMedication_duplicate_check [of demo_env metformin_order demo_manager] dup
  have a: "\<not> success (fst (addMedication demo_env metformin_order demo_manager))"
          "snd (addMedication demo_env metformin_order demo_manager) = demo_manager"
    by blast+
  from addMedication_duplicate_check [of demo_env ibuprofen_order demo_manager] fresh
  have b: "success (fst (addMedication demo_env ibuprofen_order demo_manager))"
    by blast
  with addMedication_duplicate_check [of demo_env ibuprofen_order demo_manager]
  obtain new where "patientData (snd (addMedication demo_env ibuprofen_order demo_manager)) =
             (patientData demo_manager)\<lparr> medications := medications (patientData demo_manager) @ [new] \<rparr>"
    by blast
  then have c: "length (medications (patientData (snd (addMedication demo_env ibuprofen_order demo_manager)))) = 3"
    by (simp add: len)
  from a b c show ?thesis by simp
qed

text \<open>
  C8. A recorded allergy does not block a medication: when the name is no active duplicate
  and conflicts with a recorded allergen (directly or through a drug class),
  \<open>addMedication\<close> succeeds, appends the medication, and reports the conflict as the one
  entry of the warnings it returns.
\<close>

theorem addMedication_allergy_warns:
  assumes "\<forall>med\<in>set (medications (patientData s)). \<not> active_duplicate (md_name m) med"
    and "\<exists>a\<in>set (allergies (patientData s)). allergy_conflict (toLowerCase (md_name m)) a"
  shows "\<exists>new msg a. a \<in> set (allergies (patientData s))
           \<and> allergy_conflict (toLowerCase (md_name m)) a
           \<and> med_name new = md_name m \<and> med_status new = ''active''
           \<and> fst (addMedication e m s) =
                Success \<lparr> added_medication = new, added_message = msg,
                  warnings = [''ALLERGY WARNING: Patient allergic to '' @ allergen a] \<rparr>
           \<and> patientData (snd (addMedication e m s)) =
                (patientData s)\<lparr> medications := medications (patientData s) @ [new] \<rparr>"
proof -
  from assms(2) have "checkAllergies s (md_name m) \<noteq> None"
    by (simp add: checkAllergies_def checkAllergies_loop_None)
  then obtain a where a: "checkAllergies s (md_name m) = Some a"
    by blast
  then have a_in: "a \<in> set (allergies (patientData s))"
    and a_conflict: "allergy_conflict (toLowerCase (md_name m)) a"
    using checkAllergies_loop_Some [of "toLowerCase (md_name m)" "allergies (patientData s)" a]
    by (simp_all add: checkAllergies_def)
  from addMedication_fresh [OF assms(1), of e] a obtain new msg where
    new: "med_status new = ''active''" "med_name new = md_name m" and
    r: "addMedication e m s =
          (Success \<lparr> added_medication = new, added_message = msg,
             warnings = [''ALLERGY WARNING: Patient allergic to '' @ allergen a] \<rparr>,
           saveToStorage e
             (s\<lparr> patientData := (patientData s)\<lparr> medications := medications (patientData s) @ [new] \<rparr> \<rparr>))"
    by auto
  have "patientData (snd (addMedication e m s)) =
          (patientData s)\<lparr> medications := medications (patientData s) @ [new] \<rparr>"
    by (simp add: r saveToStorage_patientData)
  with a_in a_conflict new r show ?thesis
    by auto
qed

theorem addMedication_allergy_warns_witness:
  "success (fst (addMedication demo_env amoxicillin_order demo_manager))
   \<and> warnings (payload (fst (addMedication demo_env amoxicillin_order demo_manager))) =
       [''ALLERGY WARNING: Patient allergic to Penicillin'']
   \<and> length (medications (patientData (snd (addMedication demo_env amoxicillin_order demo_manager)))) = 3"
proof -
  have lower: "toLowerCase ''Lisinopril'' = ''lisinopril''" "toLowerCase ''Metformin'' = ''metformin''"
    "toLowerCase ''Amoxicillin'' = ''amoxicillin''" "toLowerCase ''Penicillin'' = ''penicillin''"
    by code_simp+
  have cls: "checkDrugClassAllergy ''amoxicillin'' ''penicillin''"
    by code_simp
  have fresh: "\<forall>med\<in>set (medications (patientData demo_manager)).
                 \<not> active_duplicate (md_name amoxicillin_order) med"
    by (simp add: demo_manager_def demo_patientData_def active_duplicate_def amoxicillin_order_def lower)
  have conflict: "\<exists>a\<in>set (allergies (patientData demo_manager)).
                    allergy_conflict (toLowerCase (md_name amoxicillin_order)) a"
    by (simp add: demo_manager_def demo_patientData_def allergy_conflict_def amoxicillin_order_def
          lower cls)
  have only: "\<And>a. a \<in> set (allergies (patientData demo_manager)) \<Longrightarrow> allergen a = ''Penicillin''"
    by (auto simp: demo_manager_def demo_patientData_def)
  have len: "length (medications (patientData demo_manager)) = 2"
    by (simp add: demo_manager_def demo_patientData_def)
  from addMedication_allergy_warns [OF fresh conflict, of demo_env] obtain new msg a where
    "a \<in> set (allergies (patientData demo_manager))" and
    "fst (addMedication demo_env amoxicillin_order demo_manager) =
       Success \<lparr> added_medication = new, added_message = msg,
         warnings = [''ALLERGY WARNING: Patient allergic to '' @ allergen a] \<rparr>" and
    "patientData (snd (addMedication demo_env amoxicillin_order demo_manager)) =
       (patientData demo_manager)\<lparr> medications := medications (patientData demo_manager) @ [new] \<rparr>"
    by blast
  with only [of a] len show ?thesis
    by simp
qed

text \<open>
  C9. \<open>discontinueMedication\<close> deletes nothing. When no active medication has the given id
  or (letter case aside) name, it fails and the manager is as it was. Otherwise it succeeds,
  and the medications differ from the old ones at one position only, that of a matching
  medication, which gets the status \<open>discontinued\<close>, a discontinue date and a discontinue
  reason: the length, every other medication, and the allergies, conditions, vitals and
  patient info are unchanged.
\<close>

theorem discontinueMedication_frame:
  "((\<forall>med\<in>set (medications (patientData s)). \<not> matches_active medId med) \<longrightarrow>
      \<not> success (fst (discontinueMedication e medId s)) \<and> snd (discontinueMedication e medId s) = s)
   \<and> ((\<exists>med\<in>set (medications (patientData s)). matches_active medId med) \<longrightarrow>
      success (fst (discontinueMedication e medId s))
      \<and> (\<exists>i<length (medications (patientData s)).
            matches_active medId (medications (patientData s) ! i)
            \<and> medications (patientData (snd (discontinueMedication e medId s))) =
                (medications (patientData s))[i := discontinued e (medications (patientData s) ! i)])
      \<and> length (medications (patientData (snd (discontinueMedication e medId s)))) =
          length (medications (patientData s))
      \<and> allergies (patientData (snd (discontinueMedication e medId s))) = allergies (patientData s)
      \<and> conditions (patientData (snd (discontinueMedication e medId s))) = conditions (patientData s)
      \<and> vitals (patientData (snd (discontinueMedication e medId s))) = vitals (patientData s)
      \<and> patientInfo (patientData (snd (discontinueMedication e medId s))) = patientInfo (patientData s))"
proof (cases "find_active medId (medications (patientData s))")
  case None
  then have "\<forall>med\<in>set (medications (patientData s)). \<not> matches_active medId med"
    by (simp add: find_active_None)
  moreover have "discontinueMedication e medId s =
      (Failure (''Medication '' @ [CHR 0x27] @ medId @ [CHR 0x27]
                 @ '' not found or already discontinued''), s)"
    by (simp add: discontinueMedication_def None)
  ultimately show ?thesis by simp
next
  case (Some i)
  from find_active_Some [OF Some] have i: "i < length (medications (patientData s))"
    "matches_active medId (medications (patientData s) ! i)"
    by simp_all
  then have ex: "\<exists>med\<in>set (medications (patientData s)). matches_active medId med"
    using nth_mem by blast
  have "\<exists>info. discontinueMedication e medId s =
      (Success info,
       saveToStorage e (s\<lparr> patientData := (patientData s)\<lparr> medications :=
          (medications (patientData s))[i := discontinued e (medications (patientData s) ! i)] \<rparr> \<rparr>))"
    by (simp add: discontinueMedication_def Some Let_def discontinued_def)
  then obtain info where r: "discontinueMedication e medId s =
      (Success info,
       saveToStorage e (s\<lparr> patientData := (patientData s)\<lparr> medications :=
          (medications (patientData s))[i := discontinued e (medications (patientData s) ! i)] \<rparr> \<rparr>))"
    by blast
  have pd: "patientData (snd (discontinueMedication e medId s)) =
      (patientData s)\<lparr> medications :=
          (medications (patientData s))[i := discontinued e (medications (patientData s) ! i)] \<rparr>"
    by (simp add: r saveToStorage_patientData)
  have "success (fst (discontinueMedication e medId s))"
    by (simp add: r)
  moreover have "\<exists>i<length (medications (patientData s)).
            matches_active medId (medications (patientData s) ! i)
            \<and> medications (patientData (snd (discontinueMedication e medId s))) =
                (medications (patientData s))[i := discontinued e (medications (patientData s) ! i)]"
    using i by (auto simp: pd)
  ultimately show ?thesis
    using ex by (simp add: pd)
qed

theorem discontinueMedication_frame_witness:
  "\<not> success (fst (discontinueMedication demo_env ''Aspirin'' demo_manager))
   \<and> snd (discontinueMedication demo_env ''Aspirin'' demo_manager) = demo_manager
   \<and> success (fst (discontinueMedication demo_env ''METFORMIN'' demo_manager))
   \<and> length (medications (patientData (snd (discontinueMedication demo_env ''METFORMIN'' demo_manager)))) = 2
   \<and> allergies (patientData (snd (discontinueMedication demo_env ''METFORMIN'' demo_manager))) =
       allergies demo_patientData"
proof -
  have lower: "toLowerCase ''Lisinopril'' = ''lisinopril''" "toLowerCase ''Metformin'' = ''metformin''"
    "toLowerCase ''METFORMIN'' = ''metformin''" "toLowerCase ''Aspirin'' = ''aspirin''"
    by code_simp+
  have no_match: "\<forall>med\<in>set (medications (patientData demo_manager)). \<not> matches_active ''Aspirin'' med"
    by (simp add: demo_manager_def demo_patientData_def matches_active_def lower)
  have a_match: "\<exists>med\<in>set (medications (patientData demo_manager)). matches_active ''METFORMIN'' med"
    by (simp add: demo_manager_def demo_patientData_def matches_active_def lower)
  have pd: "patientData demo_manager = demo_patientData"
    by (simp add: demo_manager_def)
  have len: "length (medications demo_patientData) = 2"
    by (simp add: demo_patientData_def)
  from discontinueMedication_frame [of demo_manager "''Aspirin''" demo_env] no_match
  have a: "\<not> success (fst (discontinueMedication demo_env ''Aspirin'' demo_manager))
           \<and> snd (discontinueMedication demo_env ''Aspirin'' demo_manager) = demo_manager"
    by blast
  from discontinueMedication_frame [of demo_manager "''METFORMIN''" demo_env] a_match
  have b: "success (fst (discontinueMedication demo_env ''METFORMIN'' demo_manager))
     \<and> length (medications (patientData (snd (discontinueMedication demo_env ''METFORMIN'' demo_manager)))) =
          length (medications (patientData demo_manager))
     \<and> allergies (patientData (snd (discontinueMedication demo_env ''METFORMIN'' demo_manager))) =
          allergies (patientData demo_manager)"
    by blast
  from a b show ?thesis
    by (simp add: pd len)
qed

text \<open>
  C10. \<open>resetToDemo\<close> always ends in the TypeError of calling the class constructor without
  \<open>new\<close>: the \<open>medicalData\<close> entry of localStorage is gone, the in-memory record is the one
  before the call, and the success object is never returned.
\<close>

theorem resetToDemo_throws:
  "(\<exists>msg. fst (resetToDemo e s) = Inl (TypeError msg))
   \<and> medicalData_item (snd (resetToDemo e s)) = None
   \<and> patientData (snd (resetToDemo e s)) = patientData s
   \<and> lastUpdated (snd (resetToDemo e s)) = lastUpdated s"
  by (simp add: resetToDemo_def MedicalDataManager_constructor_def)

section \<open>Properties of the provider manager\<close>

lemma lookup_known:
  "known_provider p \<Longrightarrow> lookup_provider ps p = Some (if p = ''openai'' then openai ps else ozwell ps)"
  by (auto simp: known_provider_def lookup_provider_def)

lemma load_openai:
  assumes "ls ''openai_api_key'' = Some k" "k \<noteq> []" "ls ''openai_model'' = Some m" "m \<noteq> []"
  shows "apiKey (openai (providers (LLMManager_constructor ls))) = Some k
       \<and> model (openai (providers (LLMManager_constructor ls))) = m
       \<and> configured (openai (providers (LLMManager_constructor ls)))"
  using assms
  by (simp add: LLMManager_constructor_def loadSavedConfigurations_def Let_def truthy_def)

lemma load_ozwell:
  assumes "ls ''ozwell_api_key'' = Some k" "k \<noteq> []" "ls ''ozwell_model'' = Some m" "m \<noteq> []"
  shows "apiKey (ozwell (providers (LLMManager_constructor ls))) = Some k
       \<and> model (ozwell (providers (LLMManager_constructor ls))) = m
       \<and> configured (ozwell (providers (LLMManager_constructor ls)))"
  using assms
  by (simp add: LLMManager_constructor_def loadSavedConfigurations_def Let_def truthy_def)

lemma save_storage:
  assumes "known_provider p" "saveConfiguration p cfg (ls, s) = Inr (ls', s')"
  shows "ls' (p @ ''_api_key'') = Some (cfg_apiKey cfg)
       \<and> ls' (p @ ''_model'') = Some (text_of (cfg_model cfg))"
  using assms
  by (auto simp: saveConfiguration_def known_provider_def lookup_provider_def Let_def)

lemma save_memory:
  assumes "known_provider p" "cfg_model cfg = Some m" "saveConfiguration p cfg (ls, s) = Inr (ls', s')"
  shows "\<exists>c. lookup_provider (providers s') p = Some c \<and> apiKey c = Some (cfg_apiKey cfg)
            \<and> model c = m"
proof (cases "p = ''openai''")
  case True
  with assms(2,3) show ?thesis
    by (auto simp: saveConfiguration_def lookup_provider_def assign_provider_def Let_def)
next
  case False
  with assms(1) have "p = ''ozwell''" by (simp add: known_provider_def)
  with assms(2,3) show ?thesis
    by (auto simp: saveConfiguration_def lookup_provider_def assign_provider_def Let_def)
qed

text \<open>
  C5 (amended). A saved configuration is read back by a fresh manager when its API key and
  its model are both non-empty: for a known provider, the manager constructed on the
  storage that \<open>saveConfiguration\<close> leaves reports the provider configured, with the saved
  API key and model, which are also those of the manager that saved.
\<close>

theorem saveConfiguration_roundtrip:
  assumes "known_provider p" and "cfg_apiKey cfg \<noteq> []" and "cfg_model cfg = Some m" and "m \<noteq> []"
  shows "\<exists>saved fresh c c'.
           reload_after_save p cfg (ls, s) = Inr (saved, fresh)
           \<and> isProviderConfigured fresh p
           \<and> lookup_provider (providers fresh) p = Some c
           \<and> lookup_provider (providers saved) p = Some c'
           \<and> apiKey c = Some (cfg_apiKey cfg) \<and> model c = m
           \<and> apiKey c' = Some (cfg_apiKey cfg) \<and> model c' = m"
proof -
  from assms(1) obtain ls' s' where sv: "saveConfiguration p cfg (ls, s) = Inr (ls', s')"
    by (auto simp: saveConfiguration_def known_provider_def lookup_provider_def Let_def)
  then have r: "reload_after_save p cfg (ls, s) = Inr (s', LLMManager_constructor ls')"
    by (simp add: reload_after_save_def)
  from save_storage [OF assms(1) sv] assms(3)
  have st: "ls' (p @ ''_api_key'') = Some (cfg_apiKey cfg)" "ls' (p @ ''_model'') = Some m"
    by (simp_all add: text_of_def)
  from save_memory [OF assms(1) assms(3) sv] obtain c' where
    c': "lookup_provider (providers s') p = Some c'" "apiKey c' = Some (cfg_apiKey cfg)" "model c' = m"
    by auto
  define c where "c = (if p = ''openai'' then openai (providers (LLMManager_constructor ls'))
                        else ozwell (providers (LLMManager_constructor ls')))"
  have lc: "lookup_provider (providers (LLMManager_constructor ls')) p = Some c"
    unfolding c_def by (rule lookup_known [OF assms(1)])
  have vals: "apiKey c = Some (cfg_apiKey cfg) \<and> model c = m \<and> configured c"
  proof (cases "p = ''openai''")
    case True
    with st load_openai [of ls' "cfg_apiKey cfg" m] assms(2,4) show ?thesis
      by (simp add: c_def)
  next
    case False
    with assms(1) have p: "p = ''ozwell''" by (simp add: known_provider_def)
    with st load_ozwell [of ls' "cfg_apiKey cfg" m] assms(2,4) show ?thesis
      by (simp add: c_def)
  qed
  then have "isProviderConfigured (LLMManager_constructor ls') p"
    by (simp add: isProviderConfigured_def lc)
  with r lc c' vals show ?thesis
    by simp
qed

theorem saveConfiguration_roundtrip_witness:
  "isProviderConfigured (snd (projr (reload_after_save ''openai'' gpt4_config (Map.empty, initial_LLMManager)))) ''openai''
   \<and> model (openai (providers (snd (projr (reload_after_save ''openai'' gpt4_config (Map.empty, initial_LLMManager)))))) = ''gpt-4''
   \<and> apiKey (openai (providers (snd (projr (reload_after_save ''openai'' gpt4_config (Map.empty, initial_LLMManager)))))) = Some ''sk-test''"
proof -
  have k: "known_provider ''openai''" by (simp add: known_provider_def)
  have a: "cfg_apiKey gpt4_config \<noteq> []" "cfg_model gpt4_config = Some ''gpt-4''" "''gpt-4'' \<noteq> []"
    by (simp_all add: gpt4_config_def)
  from saveConfiguration_roundtrip [OF k a, of Map.empty initial_LLMManager]
  obtain saved fresh c where
    "reload_after_save ''openai'' gpt4_config (Map.empty, initial_LLMManager) = Inr (saved, fresh)"
    "isProviderConfigured fresh ''openai''" "lookup_provider (providers fresh) ''openai'' = Some c"
    "apiKey c = Some (cfg_apiKey gpt4_config)" "model c = ''gpt-4''"
    by blast
  then show ?thesis
    by (simp add: lookup_provider_def gpt4_config_def)
qed

text \<open>
  The claim as stated asks this of every configuration with a non-empty API key. With an
  empty model it fails: the saving manager holds the empty model, the fresh one the default.
\<close>

theorem saveConfiguration_roundtrip_counterexample:
  "known_provider ''openai'' \<and> cfg_apiKey empty_model_config \<noteq> []
   \<and> \<not> isl (reload_after_save ''openai'' empty_model_config (Map.empty, initial_LLMManager))
   \<and> model (openai (providers (fst (projr (reload_after_save ''openai'' empty_model_config
        (Map.empty, initial_LLMManager)))))) = ''''
   \<and> model (openai (providers (snd (projr (reload_after_save ''openai'' empty_model_config
        (Map.empty, initial_LLMManager)))))) = ''gpt-3.5-turbo''"
  by (simp add: known_provider_def empty_model_config_def reload_after_save_def saveConfiguration_def
        lookup_provider_def assign_provider_def initial_LLMManager_def Let_def truthy_def text_of_def
        LLMManager_constructor_def loadSavedConfigurations_def isProviderConfigured_def)

lemma selection_ok_constructor: "selection_ok (LLMManager_constructor ls)"
  by (auto simp: selection_ok_def LLMManager_constructor_def loadSavedConfigurations_def Let_def
        initial_LLMManager_def isProviderConfigured_def lookup_provider_def truthy_def
      split: option.splits if_splits)

lemma selection_ok_setCurrentProvider:
  "setCurrentProvider p (ls, s) = Inr (ls', s') \<Longrightarrow> selection_ok s'"
  by (auto simp: selection_ok_def setCurrentProvider_def lookup_provider_def Let_def
      split: option.splits if_splits)

lemma selection_ok_saveConfiguration:
  "selection_ok s \<Longrightarrow> saveConfiguration p cfg (ls, s) = Inr (ls', s') \<Longrightarrow> selection_ok s'"
  by (auto simp: selection_ok_def saveConfiguration_def Let_def split: option.splits)

lemma generateResponse_none:
  "currentProvider s = None \<Longrightarrow>
     LLMManager_generateResponse messages onChunk reply s =
       ((Inl (Error ''No LLM provider selected''), []), s)"
  by (simp add: LLMManager_generateResponse_def truthy_def)

lemma generateResponse_unconfigured:
  assumes "known_provider p" "currentProvider s = Some p" "\<not> isProviderConfigured s p"
  shows "LLMManager_generateResponse messages onChunk reply s =
           ((Inl (Error (''Provider '' @ p @ '' is not configured'')), []), s)"
  using assms
  by (auto simp: LLMManager_generateResponse_def truthy_def known_provider_def
        isProviderConfigured_def lookup_provider_def)

lemma generateResponse_configured:
  assumes "known_provider p" "currentProvider s = Some p" "isProviderConfigured s p"
  shows "\<exists>req. LLMManager_generateResponse messages onChunk reply s = ((reply, [req]), s)"
  using assms
  by (auto simp: LLMManager_generateResponse_def truthy_def known_provider_def
        isProviderConfigured_def lookup_provider_def callOpenAI_def callOzwell_def)

lemma guard_error_none: "guard_error (Inl (Error ''No LLM provider selected''))"
  by (simp add: guard_error_def)

lemma guard_error_unconfigured:
  "known_provider p \<Longrightarrow> guard_error (Inl (Error (''Provider '' @ p @ '' is not configured'')))"
  by (auto simp: guard_error_def known_provider_def)

lemma unconfigured_not_none:
  "Inl (Error (''Provider '' @ p @ '' is not configured'')) \<noteq> Inl (Error ''No LLM provider selected'')"
  by simp

text \<open>
  C6. In a manager whose selection is null or a provider's name, and for an HTTP exchange
  that does not itself end in one of the two guard errors: \<open>generateResponse\<close> throws
  ``No LLM provider selected'' exactly when \<open>currentProvider\<close> is null, and ``Provider p is
  not configured'' exactly when the selected provider \<open>p\<close> is not configured. A call that
  throws one of the two sends no request; any other call sends one request and ends as the
  exchange does. The manager is never changed.
\<close>

theorem generateResponse_guards:
  assumes "selection_ok s" and "\<not> guard_error reply"
  shows "(fst (fst (LLMManager_generateResponse messages onChunk reply s))
            = Inl (Error ''No LLM provider selected'') \<longleftrightarrow> currentProvider s = None)
       \<and> (\<forall>p. currentProvider s = Some p \<longrightarrow>
            (fst (fst (LLMManager_generateResponse messages onChunk reply s))
               = Inl (Error (''Provider '' @ p @ '' is not configured''))
             \<longleftrightarrow> \<not> isProviderConfigured s p))
       \<and> (guard_error (fst (fst (LLMManager_generateResponse messages onChunk reply s))) \<longrightarrow>
            snd (fst (LLMManager_generateResponse messages onChunk reply s)) = [])
       \<and> (\<not> guard_error (fst (fst (LLMManager_generateResponse messages onChunk reply s))) \<longrightarrow>
            fst (fst (LLMManager_generateResponse messages onChunk reply s)) = reply
            \<and> length (snd (fst (LLMManager_generateResponse messages onChunk reply s))) = 1)
       \<and> snd (LLMManager_generateResponse messages onChunk reply s) = s"
proof (cases "currentProvider s")
  case None
  from generateResponse_none [OF None] guard_error_none show ?thesis
    by (simp add: None)
next
  case (Some p)
  with assms(1) have k: "known_provider p"
    by (auto simp: selection_ok_def known_provider_def)
  show ?thesis
  proof (cases "isProviderConfigured s p")
    case True
    from generateResponse_configured [OF k Some True] obtain req where
      r: "LLMManager_generateResponse messages onChunk reply s = ((reply, [req]), s)"
      by blast
    from assms(2) guard_error_none have n1: "reply \<noteq> Inl (Error ''No LLM provider selected'')"
      by auto
    from assms(2) guard_error_unconfigured [OF k]
    have n2: "reply \<noteq> Inl (Error (''Provider '' @ p @ '' is not configured''))"
      by auto
    from n1 n2 assms(2) Some True show ?thesis
      by (simp add: r)
  next
    case False
    from generateResponse_unconfigured [OF k Some False]
    have r: "LLMManager_generateResponse messages onChunk reply s =
           ((Inl (Error (''Provider '' @ p @ '' is not configured'')), []), s)" .
    from Some False guard_error_unconfigured [OF k] unconfigured_not_none [of p] show ?thesis
      by (simp add: r)
  qed
qed

theorem generateResponse_guards_witness:
  "fst (fst (LLMManager_generateResponse hello False (Inr (ResponseText ''Hi'')) initial_LLMManager))
     = Inl (Error ''No LLM provider selected'')
   \<and> snd (fst (LLMManager_generateResponse hello False (Inr (ResponseText ''Hi'')) initial_LLMManager)) = []
   \<and> fst (fst (LLMManager_generateResponse hello False (Inr (ResponseText ''Hi''))
        (initial_LLMManager\<lparr> currentProvider := Some ''ozwell'' \<rparr>)))
     = Inl (Error ''Provider ozwell is not configured'')
   \<and> snd (fst (LLMManager_generateResponse hello False (Inr (ResponseText ''Hi''))
        (initial_LLMManager\<lparr> currentProvider := Some ''ozwell'' \<rparr>))) = []"
proof -
  have ok1: "selection_ok initial_LLMManager"
    and ok2: "selection_ok (initial_LLMManager\<lparr> currentProvider := Some ''ozwell'' \<rparr>)"
    by (simp_all add: selection_ok_def initial_LLMManager_def)
  have r: "\<not> guard_error (Inr (ResponseText ''Hi''))"
    by (simp add: guard_error_def)
  have c1: "currentProvider initial_LLMManager = None"
    by (simp add: initial_LLMManager_def)
  have c2: "currentProvider (initial_LLMManager\<lparr> currentProvider := Some ''ozwell'' \<rparr>) = Some ''ozwell''"
    "\<not> isProviderConfigured (initial_LLMManager\<lparr> currentProvider := Some ''ozwell'' \<rparr>) ''ozwell''"
    by (simp_all add: initial_LLMManager_def isProviderConfigured_def lookup_provider_def)
  have g: "guard_error (Inl (Error ''No LLM provider selected''))"
    "guard_error (Inl (Error ''Provider ozwell is not configured''))"
    by (simp_all add: guard_error_def)
  from generateResponse_guards [OF ok1 r, of hello False] c1 g(1)
  have a: "fst (fst (LLMManager_generateResponse hello False (Inr (ResponseText ''Hi'')) initial_LLMManager))
     = Inl (Error ''No LLM provider selected'')
   \<and> snd (fst (LLMManager_generateResponse hello False (Inr (ResponseText ''Hi'')) initial_LLMManager)) = []"
    by metis
  from generateResponse_guards [OF ok2 r, of hello False] c2 g(2)
  have b: "fst (fst (LLMManager_generateResponse hello False (Inr (ResponseText ''Hi''))
        (initial_LLMManager\<lparr> currentProvider := Some ''ozwell'' \<rparr>)))
     = Inl (Error ''Provider ozwell is not configured'')
   \<and> snd (fst (LLMManager_generateResponse hello False (Inr (ResponseText ''Hi''))
        (initial_LLMManager\<lparr> currentProvider := Some ''ozwell'' \<rparr>))) = []"
    by (metis append.simps)
  from a b show ?thesis by simp
qed

section \<open>Properties of the tool-call parsers\<close>

lemma replace_first_prefix: "prefix pat s \<Longrightarrow> replace_first pat [] s = drop (length pat) s"
  by (cases s) auto

lemma tool_not_params: "startsWith l ''TOOL_CALL:'' \<Longrightarrow> \<not> startsWith l ''PARAMS:''"
  by (auto simp: startsWith_def prefix_def)

lemma scan_lines_last:
  "scan_lines parse ls vars =
     (let ts = filter (\<lambda>l. startsWith l ''TOOL_CALL:'') (map trim ls);
          ps = filter (\<lambda>l. startsWith l ''PARAMS:'') (map trim ls)
      in (if ts = [] then fst vars else Some (name_of (last ts)),
          if ps = [] then snd vars else value_of parse (last ps)))"
proof (induction ls arbitrary: vars)
  case Nil
  then show ?case by simp
next
  case (Cons l ls)
  show ?case
  proof (cases "startsWith (trim l) ''TOOL_CALL:''")
    case True
    then have np: "\<not> startsWith (trim l) ''PARAMS:''" by (rule tool_not_params)
    from True have "replace_first ''TOOL_CALL:'' [] (trim l) = drop (length ''TOOL_CALL:'') (trim l)"
      by (simp add: replace_first_prefix startsWith_def)
    with True np show ?thesis
      by (simp add: Cons.IH Let_def name_of_def)
  next
    case False
    show ?thesis
    proof (cases "startsWith (trim l) ''PARAMS:''")
      case True
      then have "replace_first ''PARAMS:'' [] (trim l) = drop (length ''PARAMS:'') (trim l)"
        by (simp add: replace_first_prefix startsWith_def)
      with True False show ?thesis
        by (simp add: Cons.IH Let_def value_of_def)
    next
      case np: False
      with False show ?thesis
        by (simp add: Cons.IH Let_def)
    qed
  qed
qed

lemma scan_lines_text:
  "scan_lines parse (split_lines text) (None, JNull) =
     (if tool_lines text = [] then None else Some (last_tool_name text), last_params parse text)"
  by (simp add: scan_lines_last Let_def tool_lines_def params_lines_def last_tool_name_def
        last_params_def name_of_def value_of_def)

lemma parseOzwellToolCalls_text:
  "parseOzwellToolCalls parse (ResponseText text) =
     (if tool_lines text \<noteq> [] \<and> last_tool_name text \<noteq> []
      then [\<lparr> tool_id = None, tool_name = last_tool_name text,
              parameters = last_params parse text, provider = Some ''ozwell'' \<rparr>]
      else [])"
  by (simp add: parseOzwellToolCalls_def scan_lines_text truthy_def)

lemma Ozwell_parseToolCalls_text:
  "Ozwell_parseToolCalls parse (ResponseText text) =
     Inr (if tool_lines text \<noteq> [] \<and> last_tool_name text \<noteq> []
          then [\<lparr> tool_id = None, tool_name = last_tool_name text,
                  parameters = last_params parse text, provider = None \<rparr>]
          else [])"
  by (simp add: Ozwell_parseToolCalls_def scan_lines_text truthy_def)

text \<open>
  C1 (amended). On a string, both parsers return a singleton exactly when some trimmed line
  starts with \<open>TOOL_CALL:\<close> and the last such line has a non-empty name after it, and the
  empty list otherwise. The singleton's name is that name, its parameters those of the last
  \<open>PARAMS:\<close> line (parsed as JSON, else with the double quotes removed) or null without
  such a line. \<open>LLMManager.parseOzwellToolCalls\<close> returns the empty list on anything that is
  not a string.
\<close>

theorem parseOzwellToolCalls_last_lines:
  "parseOzwellToolCalls parse (ResponseText text) =
     (if tool_lines text \<noteq> [] \<and> last_tool_name text \<noteq> []
      then [\<lparr> tool_id = None, tool_name = last_tool_name text,
              parameters = last_params parse text, provider = Some ''ozwell'' \<rparr>]
      else [])
   \<and> Ozwell_parseToolCalls parse (ResponseText text) =
     Inr (if tool_lines text \<noteq> [] \<and> last_tool_name text \<noteq> []
          then [\<lparr> tool_id = None, tool_name = last_tool_name text,
                  parameters = last_params parse text, provider = None \<rparr>]
          else [])
   \<and> (\<not> is_text r \<longrightarrow> parseOzwellToolCalls parse r = [])"
proof -
  have "\<not> is_text r \<longrightarrow> parseOzwellToolCalls parse r = []"
    by (cases r) (simp_all add: is_text_def parseOzwellToolCalls_def)
  with parseOzwellToolCalls_text [of parse "text"] Ozwell_parseToolCalls_text [of parse "text"]
  show ?thesis by blast
qed

theorem parseOzwellToolCalls_last_lines_witness:
  "parseOzwellToolCalls JSON_parse (ResponseText getContext_reply) =
     [\<lparr> tool_id = None, tool_name = ''getContext'', parameters = JObject [],
        provider = Some ''ozwell'' \<rparr>]
   \<and> Ozwell_parseToolCalls JSON_parse (ResponseText getContext_reply) =
     Inr [\<lparr> tool_id = None, tool_name = ''getContext'', parameters = JObject [], provider = None \<rparr>]
   \<and> parseOzwellToolCalls JSON_parse ResponseNull = []"
proof -
  have tl: "tool_lines getContext_reply = [''TOOL_CALL: getContext'']"
    by code_simp
  have nm: "last_tool_name getContext_reply = ''getContext''"
    by code_simp
  have ps: "last_params JSON_parse getContext_reply = JObject []"
    by code_simp
  have nt: "\<not> is_text ResponseNull"
    by (simp add: is_text_def)
  from parseOzwellToolCalls_last_lines [of JSON_parse getContext_reply ResponseNull] nt
  show ?thesis
    by (simp add: tl nm ps)
qed

text \<open>
  The claim as stated gives a singleton whenever a trimmed line starts with \<open>TOOL_CALL:\<close>.
  A line with nothing after the colon is such a line, and both parsers return the empty
  list on it.
\<close>

theorem parseOzwellToolCalls_counterexample:
  "tool_lines ''TOOL_CALL:'' = [''TOOL_CALL:'']
   \<and> parseOzwellToolCalls JSON_parse (ResponseText ''TOOL_CALL:'') = []
   \<and> Ozwell_parseToolCalls JSON_parse (ResponseText ''TOOL_CALL:'') = Inr []"
proof -
  have tl: "tool_lines ''TOOL_CALL:'' = [''TOOL_CALL:'']"
    by code_simp
  have nm: "last_tool_name ''TOOL_CALL:'' = []"
    by code_simp
  from parseOzwellToolCalls_text [of JSON_parse "''TOOL_CALL:''"]
  have a: "parseOzwellToolCalls JSON_parse (ResponseText ''TOOL_CALL:'') = []"
    by (simp only: nm) simp
  from Ozwell_parseToolCalls_text [of JSON_parse "''TOOL_CALL:''"]
  have b: "Ozwell_parseToolCalls JSON_parse (ResponseText ''TOOL_CALL:'') = Inr []"
    by (simp only: nm) simp
  from tl a b show ?thesis by blast
qed

text \<open>On a value that is not a string the two parsers differ: one returns, one throws.\<close>

lemma parsers_differ_on_null:
  "parseOzwellToolCalls parse ResponseNull = []
   \<and> Ozwell_parseToolCalls parse ResponseNull = Inl (TypeError ''response.split is not a function'')"
  by (simp add: parseOzwellToolCalls_def Ozwell_parseToolCalls_def)

section \<open>Properties of the chat client\<close>

lemma execute_posts_append: "execute_posts (xs @ ys) = execute_posts xs @ execute_posts ys"
  by (induction xs rule: execute_posts.induct) simp_all

lemma execute_posts_Fetch: "execute_posts (map Fetch rs) = []"
  by (induction rs) simp_all

lemma execute_posts_executeToolViaMCP:
  "execute_posts (fst (executeToolViaMCP name params c)) =
     [McpExecuteTool (Suc (requestCounter c)) name params]"
  by (simp add: executeToolViaMCP_def log_event_def Let_def)

lemma processMessage_try_calls:
  assumes "fst (fst (LLMManager_generateResponse (chatHistory c) False reply (llmManager c)))
             = Inr response"
    and "LLMManager_parseToolCalls parse response (currentProvider (llmManager c)) (llmManager c)
           = Inr tcs"
    and "tcs \<noteq> []"
    and "length tcs = 1 \<or> \<not> list_ex (\<lambda>tc. parameters tc = JNull) tcs"
  shows "execute_posts (fst (processMessage_try parse reply c)) =
           [McpExecuteTool (Suc (requestCounter c)) (tool_name (hd tcs)) (parameters (hd tcs))]"
proof -
  have t: "truthy (currentProvider (llmManager c))"
  proof (rule ccontr)
    assume "\<not> truthy (currentProvider (llmManager c))"
    then have "fst (fst (LLMManager_generateResponse (chatHistory c) False reply (llmManager c)))
                 = Inl (Error ''No LLM provider selected'')"
      by (simp add: LLMManager_generateResponse_def)
    with assms(1) show False by simp
  qed
  show ?thesis
  proof (cases "length tcs = 1")
    case True
    with t assms(1,2,3) show ?thesis
      by (simp add: processMessage_try_def Let_def execute_posts_append execute_posts_Fetch
            execute_posts_executeToolViaMCP log_event_def)
  next
    case False
    with assms(4) have "\<not> list_ex (\<lambda>tc. parameters tc = JNull) tcs" by simp
    with False t assms(1,2,3) show ?thesis
      by (simp add: processMessage_try_def Let_def execute_posts_append execute_posts_Fetch
            execute_posts_executeToolViaMCP log_event_def)
  qed
qed

lemma processMessage_try_no_calls:
  assumes "fst (fst (LLMManager_generateResponse (chatHistory c) False reply (llmManager c)))
             = Inr response"
    and "LLMManager_parseToolCalls parse response (currentProvider (llmManager c)) (llmManager c)
           = Inr []"
    and "response \<noteq> ResponseNull"
  shows "execute_posts (fst (processMessage_try parse reply c)) = []"
proof -
  have t: "truthy (currentProvider (llmManager c))"
  proof (rule ccontr)
    assume "\<not> truthy (currentProvider (llmManager c))"
    then have "fst (fst (LLMManager_generateResponse (chatHistory c) False reply (llmManager c)))
                 = Inl (Error ''No LLM provider selected'')"
      by (simp add: LLMManager_generateResponse_def)
    with assms(1) show False by simp
  qed
  from assms(3) obtain body_text where "response_text response = Inr body_text"
    by (cases response) (simp_all add: response_text_def)
  with t assms(1,2) show ?thesis
    by (simp add: processMessage_try_def Let_def execute_posts_append execute_posts_Fetch)
qed

lemma processMessage_enters:
  "\<not> processingMessage c \<Longrightarrow>
     execute_posts (fst (processMessage parse reply message c)) =
       execute_posts (fst (processMessage_try parse reply (c\<lparr> processingMessage := True \<rparr>)))"
  by (simp add: processMessage_def Let_def)

lemma openai_client_manager:
  "currentProvider (llmManager openai_client) = Some ''openai''
   \<and> isProviderConfigured (llmManager openai_client) ''openai''"
  by (simp add: openai_client_def openai_storage_def LLMManager_constructor_def
        loadSavedConfigurations_def initial_LLMManager_def isProviderConfigured_def
        lookup_provider_def truthy_def Let_def)

lemma openai_client_generate:
  "fst (fst (LLMManager_generateResponse (chatHistory openai_client) False (Inr r)
     (llmManager openai_client))) = Inr r"
proof -
  have k: "known_provider ''openai''" by (simp add: known_provider_def)
  from generateResponse_configured [OF k, of "llmManager openai_client"] openai_client_manager
  obtain req where "LLMManager_generateResponse (chatHistory openai_client) False (Inr r)
     (llmManager openai_client) = ((Inr r, [req]), llmManager openai_client)"
    by blast
  then show ?thesis by simp
qed

lemma parse_empty_object: "JSON_parse ''{}'' = Some (JObject [])"
  by code_simp

text \<open>
  C2 (amended). \<open>processMessage\<close> relays the first tool call of a model response and no
  other. When the call is not a re-entrant one, the provider answers with a response, and
  \<open>parseToolCalls\<close> returns for it a list that is a singleton or has no element with null
  parameters, the \<open>mcp-execute-tool\<close> messages it posts are exactly one, with the name and the
  parameters of the first element of the list. For the empty list (the response not null) it
  posts none.
\<close>

theorem processMessage_relays_first:
  assumes "\<not> processingMessage c"
    and "fst (fst (LLMManager_generateResponse (chatHistory c) False reply (llmManager c)))
           = Inr response"
    and "LLMManager_parseToolCalls parse response (currentProvider (llmManager c)) (llmManager c)
           = Inr tcs"
    and "length tcs \<le> 1 \<or> \<not> list_ex (\<lambda>tc. parameters tc = JNull) tcs"
    and "tcs = [] \<longrightarrow> response \<noteq> ResponseNull"
  shows "execute_posts (fst (processMessage parse reply message c)) =
           (if tcs = [] then []
            else [McpExecuteTool (Suc (requestCounter c)) (tool_name (hd tcs)) (parameters (hd tcs))])"
proof -
  define c' where "c' = c\<lparr> processingMessage := True \<rparr>"
  have same: "chatHistory c' = chatHistory c" "llmManager c' = llmManager c"
    "requestCounter c' = requestCounter c"
    by (simp_all add: c'_def)
  have p: "execute_posts (fst (processMessage parse reply message c)) =
             execute_posts (fst (processMessage_try parse reply c'))"
    unfolding c'_def using assms(1) by (rule processMessage_enters)
  show ?thesis
  proof (cases "tcs = []")
    case True
    with assms(5) have "response \<noteq> ResponseNull" by simp
    with processMessage_try_no_calls [of c' reply response parse] assms(2,3) True same
    show ?thesis by (simp add: p)
  next
    case False
    with assms(4) have "length tcs = 1 \<or> \<not> list_ex (\<lambda>tc. parameters tc = JNull) tcs"
      by (cases tcs) auto
    with processMessage_try_calls [of c' reply response parse tcs] assms(2,3) False same
    show ?thesis by (simp add: p)
  qed
qed

theorem processMessage_relays_first_witness:
  "execute_posts (fst (processMessage JSON_parse (Inr one_call_reply) ''show the patient'' openai_client))
     = [McpExecuteTool 1 ''getContext'' (JObject [])]"
proof -
  have a: "\<not> processingMessage openai_client"
    by (simp add: openai_client_def)
  have b: "fst (fst (LLMManager_generateResponse (chatHistory openai_client) False
              (Inr one_call_reply) (llmManager openai_client))) = Inr one_call_reply"
    by (rule openai_client_generate)
  have c: "LLMManager_parseToolCalls JSON_parse one_call_reply
             (currentProvider (llmManager openai_client)) (llmManager openai_client)
           = Inr [\<lparr> tool_id = Some ''call_1'', tool_name = ''getContext'', parameters = JObject [],
                    provider = Some ''openai'' \<rparr>]"
    using openai_client_manager
    by (simp add: LLMManager_parseToolCalls_def parseOpenAIToolCalls_def one_call_reply_def
          truthy_def parse_empty_object Let_def)
  have d: "length [\<lparr> tool_id = Some ''call_1'', tool_name = ''getContext'', parameters = JObject [],
                    provider = Some ''openai'' \<rparr>] \<le> 1
           \<or> \<not> list_ex (\<lambda>tc. parameters tc = JNull)
                 [\<lparr> tool_id = Some ''call_1'', tool_name = ''getContext'', parameters = JObject [],
                    provider = Some ''openai'' \<rparr>]"
    by simp
  have e: "[\<lparr> tool_id = Some ''call_1'', tool_name = ''getContext'', parameters = JObject [],
               provider = Some ''openai'' \<rparr>] = [] \<longrightarrow> one_call_reply \<noteq> ResponseNull"
    by simp
  have n: "requestCounter openai_client = 0"
    by (simp add: openai_client_def)
  from processMessage_relays_first [OF a b c d e, of "''show the patient''"] n
  show ?thesis by simp
qed

text \<open>
  The claim as stated has one message for each element of the list. For a reply with two
  tool calls the list has two elements, and one message is posted, for the first.
\<close>

theorem processMessage_relays_all_counterexample:
  "LLMManager_parseToolCalls JSON_parse two_calls_reply
     (currentProvider (llmManager openai_client)) (llmManager openai_client)
     = Inr [\<lparr> tool_id = Some ''call_1'', tool_name = ''getContext'', parameters = JObject [],
              provider = Some ''openai'' \<rparr>,
            \<lparr> tool_id = Some ''call_2'', tool_name = ''discontinueMedication'',
              parameters = JObject [], provider = Some ''openai'' \<rparr>]
   \<and> execute_posts (fst (processMessage JSON_parse (Inr two_calls_reply) ''stop it'' openai_client))
     = [McpExecuteTool 1 ''getContext'' (JObject [])]"
proof -
  have a: "\<not> processingMessage openai_client"
    by (simp add: openai_client_def)
  have b: "fst (fst (LLMManager_generateResponse (chatHistory openai_client) False
              (Inr two_calls_reply) (llmManager openai_client))) = Inr two_calls_reply"
    by (rule openai_client_generate)
  have c: "LLMManager_parseToolCalls JSON_parse two_calls_reply
             (currentProvider (llmManager openai_client)) (llmManager openai_client)
     = Inr [\<lparr> tool_id = Some ''call_1'', tool_name = ''getContext'', parameters = JObject [],
              provider = Some ''openai'' \<rparr>,
            \<lparr> tool_id = Some ''call_2'', tool_name = ''discontinueMedication'',
              parameters = JObject [], provider = Some ''openai'' \<rparr>]"
    using openai_client_manager
    by (simp add: LLMManager_parseToolCalls_def parseOpenAIToolCalls_def two_calls_reply_def
          truthy_def parse_empty_object Let_def)
  have n: "requestCounter openai_client = 0"
    by (simp add: openai_client_def)
  define c' where "c' = openai_client\<lparr> processingMessage := True \<rparr>"
  have same: "chatHistory c' = chatHistory openai_client" "llmManager c' = llmManager openai_client"
    "requestCounter c' = 0"
    by (simp_all add: c'_def n)
  have d: "execute_posts (fst (processMessage_try JSON_parse (Inr two_calls_reply) c'))
     = [McpExecuteTool 1 ''getContext'' (JObject [])]"
    using processMessage_try_calls [of c' "Inr two_calls_reply" two_calls_reply JSON_parse] b c same
    by simp
  from processMessage_enters [OF a, of JSON_parse "Inr two_calls_reply" "''stop it''"] d
  have "execute_posts (fst (processMessage JSON_parse (Inr two_calls_reply) ''stop it'' openai_client))
     = [McpExecuteTool 1 ''getContext'' (JObject [])]"
    by (simp add: c'_def)
  with c show ?thesis by simp
qed

section \<open>Properties of the classifier\<close>

inductive_cases in_NeverE: "in_lang Never w"
inductive_cases in_EmptyE: "in_lang Empty w"
inductive_cases in_ClassE: "in_lang (Class P) w"
inductive_cases in_ThenE: "in_lang (Then r s) w"
inductive_cases in_OrE: "in_lang (Or r s) w"

lemma in_Never_iff: "in_lang Never w \<longleftrightarrow> False"
  by (auto elim: in_NeverE)

lemma in_Empty_iff: "in_lang Empty w \<longleftrightarrow> w = []"
  by (auto elim: in_EmptyE intro: in_lang.intros)

lemma in_Class_iff: "in_lang (Class P) w \<longleftrightarrow> (\<exists>c. w = [c] \<and> P c)"
  by (auto elim: in_ClassE intro: in_lang.intros)

lemma in_Then_iff: "in_lang (Then r s) w \<longleftrightarrow> (\<exists>u v. w = u @ v \<and> in_lang r u \<and> in_lang s v)"
  by (blast elim: in_ThenE intro: in_lang.intros)

lemma in_Or_iff: "in_lang (Or r s) w \<longleftrightarrow> in_lang r w \<or> in_lang s w"
  by (auto elim: in_OrE intro: in_lang.intros)

lemma in_Many_Cons:
  assumes "in_lang q x" "q = Many r" "x = c # w"
  shows "\<exists>u v. w = u @ v \<and> in_lang r (c # u) \<and> in_lang (Many r) v"
  using assms
proof (induction arbitrary: w rule: in_lang.induct)
  case (in_Many_more r' u v)
  show ?case
  proof (cases u)
    case Nil
    with in_Many_more show ?thesis by simp
  next
    case (Cons a u')
    with in_Many_more.prems have "a = c" "w = u' @ v" by simp_all
    with in_Many_more.hyps in_Many_more.prems Cons show ?thesis by blast
  qed
qed simp_all

lemma in_Many_Cons_iff:
  "in_lang (Many r) (c # w) \<longleftrightarrow> (\<exists>u v. w = u @ v \<and> in_lang r (c # u) \<and> in_lang (Many r) v)"
proof
  assume "in_lang (Many r) (c # w)"
  then show "\<exists>u v. w = u @ v \<and> in_lang r (c # u) \<and> in_lang (Many r) v"
    by (rule in_Many_Cons) simp_all
next
  assume "\<exists>u v. w = u @ v \<and> in_lang r (c # u) \<and> in_lang (Many r) v"
  then obtain u v where "w = u @ v" "in_lang r (c # u)" "in_lang (Many r) v" by blast
  then show "in_lang (Many r) (c # w)"
    using in_Many_more [of r "c # u" v] by simp
qed

lemma nullable_iff: "nullable r \<longleftrightarrow> in_lang r []"
  by (induction r)
    (auto simp: in_Never_iff in_Empty_iff in_Class_iff in_Then_iff in_Or_iff intro: in_Many_none)

lemma deriv_iff: "in_lang (deriv c r) w \<longleftrightarrow> in_lang r (c # w)"
proof (induction r arbitrary: w)
  case Never
  show ?case by (simp add: in_Never_iff)
next
  case Empty
  show ?case by (simp add: in_Never_iff in_Empty_iff)
next
  case (Class P)
  show ?case by (auto simp: in_Never_iff in_Empty_iff in_Class_iff)
next
  case (Then r s)
  have "in_lang (Then r s) (c # w) \<longleftrightarrow>
          (\<exists>u v. w = u @ v \<and> in_lang r (c # u) \<and> in_lang s v) \<or> (in_lang r [] \<and> in_lang s (c # w))"
    by (auto simp: in_Then_iff Cons_eq_append_conv) 
  then show ?case
    by (auto simp: in_Then_iff in_Or_iff Then.IH nullable_iff)
next
  case (Or r s)
  then show ?case by (simp add: in_Or_iff)
next
  case (Many r)
  show ?case
    by (simp add: in_Then_iff Many.IH in_Many_Cons_iff)
qed

lemma matches_iff: "matches r w \<longleftrightarrow> in_lang r w"
  by (induction w arbitrary: r) (simp_all add: nullable_iff deriv_iff)

lemma regex_test_iff: "regex_test r s \<longleftrightarrow> contains_match r s"
proof -
  have "regex_test r s \<longleftrightarrow> (\<exists>t\<in>set (suffixes s). \<exists>v\<in>set (prefixes t). in_lang r v)"
    by (simp add: regex_test_def list_ex_iff matches_iff)
  also have "\<dots> \<longleftrightarrow> (\<exists>t. suffix t s \<and> (\<exists>v. prefix v t \<and> in_lang r v))"
    by (simp add: Bex_def in_set_suffixes in_set_prefixes)
  also have "\<dots> \<longleftrightarrow> contains_match r s"
    unfolding contains_match_def suffix_def prefix_def by blast
  finally show ?thesis .
qed

lemma str_includes_iff: "str_includes s k \<longleftrightarrow> contains s k"
  by (auto simp: str_includes_def contains_def sublist_def)

lemma in_Class_Then_iff:
  "in_lang (Then (Class P) r) w \<longleftrightarrow> (\<exists>c v. w = c # v \<and> P c \<and> in_lang r v)"
proof
  assume "in_lang (Then (Class P) r) w"
  then obtain u v where "w = u @ v" "in_lang (Class P) u" "in_lang r v"
    unfolding in_Then_iff by blast
  then show "\<exists>c v. w = c # v \<and> P c \<and> in_lang r v"
    by (auto simp: in_Class_iff)
next
  assume "\<exists>c v. w = c # v \<and> P c \<and> in_lang r v"
  then obtain c v where "w = [c] @ v" "P c" "in_lang r v" by auto
  then show "in_lang (Then (Class P) r) w"
    unfolding in_Then_iff in_Class_iff by blast
qed

lemma in_Many_Class_iff: "in_lang (Many (Class P)) w \<longleftrightarrow> list_all P w"
proof (induction w)
  case Nil
  show ?case by (simp add: in_Many_none)
next
  case (Cons c w)
  have "in_lang (Many (Class P)) (c # w) \<longleftrightarrow> P c \<and> in_lang (Many (Class P)) w"
    by (auto simp: in_Many_Cons_iff in_Class_iff)
  with Cons show ?case by simp
qed

lemma in_word_iff: "in_lang (word k) u \<longleftrightarrow> toLowerCase u = k"
proof (induction k arbitrary: u)
  case Nil
  show ?case by (simp add: in_Empty_iff toLowerCase_def)
next
  case (Cons c k)
  show ?case
    by (cases u) (auto simp: in_Class_Then_iff letter_def Cons.IH toLowerCase_def)
qed

lemma in_Then3_iff:
  "in_lang (Then r1 (Then r2 r3)) v \<longleftrightarrow>
     (\<exists>a b c. v = a @ b @ c \<and> in_lang r1 a \<and> in_lang r2 b \<and> in_lang r3 c)"
  unfolding in_Then_iff by blast

lemma in_digits_iff:
  "in_lang (Then (Class is_digit) (Many (Class is_digit))) x \<longleftrightarrow> x \<noteq> [] \<and> list_all is_digit x"
  by (cases x) (auto simp: in_Class_Then_iff in_Many_Class_iff)

lemma in_units_iff:
  "in_lang (Then (word ''unit'') (Or (letter CHR ''s'') Empty)) x \<longleftrightarrow>
     toLowerCase x = ''unit'' \<or> toLowerCase x = ''units''"
proof
  assume "in_lang (Then (word ''unit'') (Or (letter CHR ''s'') Empty)) x"
  then obtain a b where ab: "x = a @ b" "toLowerCase a = ''unit''"
      "b = [] \<or> (\<exists>c. b = [c] \<and> lowerChar c = CHR ''s'')"
    unfolding in_Then_iff in_word_iff in_Or_iff in_Empty_iff letter_def in_Class_iff by blast
  from ab(3) show "toLowerCase x = ''unit'' \<or> toLowerCase x = ''units''"
  proof
    assume "b = []"
    with ab show ?thesis by simp
  next
    assume "\<exists>c. b = [c] \<and> lowerChar c = CHR ''s''"
    then obtain c where "b = [c]" "lowerChar c = CHR ''s''" by blast
    with ab have "toLowerCase x = ''unit'' @ ''s''"
      by (simp add: toLowerCase_def)
    then show ?thesis by simp
  qed
next
  assume "toLowerCase x = ''unit'' \<or> toLowerCase x = ''units''"
  then show "in_lang (Then (word ''unit'') (Or (letter CHR ''s'') Empty)) x"
  proof
    assume "toLowerCase x = ''unit''"
    then have "in_lang (word ''unit'') x"
      by (simp only: in_word_iff)
    moreover have "in_lang (Or (letter CHR ''s'') Empty) []"
      by (simp add: in_Or_iff in_Empty_iff)
    ultimately have "in_lang (Then (word ''unit'') (Or (letter CHR ''s'') Empty)) (x @ [])"
      by (rule in_Then)
    then show ?thesis by simp
  next
    assume u: "toLowerCase x = ''units''"
    then have "length (toLowerCase x) = 5" by simp
    then have "length x = 5" by (simp add: toLowerCase_def)
    then obtain a b c d e where x: "x = [a, b, c, d, e]"
      by (auto simp: length_Suc_conv eval_nat_numeral)
    with u have l: "toLowerCase [a, b, c, d] = ''unit''" "lowerChar e = CHR ''s''"
      by (simp_all add: toLowerCase_def)
    from l(1) have "in_lang (word ''unit'') [a, b, c, d]"
      by (simp only: in_word_iff)
    moreover from l(2) have "in_lang (Or (letter CHR ''s'') Empty) [e]"
      by (simp add: in_Or_iff in_Class_iff letter_def)
    ultimately have "in_lang (Then (word ''unit'') (Or (letter CHR ''s'') Empty)) ([a, b, c, d] @ [e])"
      by (rule in_Then)
    with x show ?thesis by simp
  qed
qed

lemma in_unit_names_iff:
  "in_lang (Or (word ''mg'') (Or (word ''mcg'') (Or (word ''g'') (Or (word ''ml'')
      (Or (word ''cc'') (Then (word ''unit'') (Or (letter CHR ''s'') Empty))))))) x \<longleftrightarrow>
     toLowerCase x \<in> {''mg'', ''mcg'', ''g'', ''ml'', ''cc'', ''unit'', ''units''}"
  unfolding in_Or_iff in_word_iff in_units_iff by blast

text \<open>The strings the dose pattern matches: digits, white space, and a unit in any letter case.\<close>

lemma dose_pattern_lang:
  "in_lang dose_pattern v \<longleftrightarrow>
     (\<exists>ds ws u. v = ds @ ws @ u \<and> ds \<noteq> [] \<and> list_all is_digit ds \<and> list_all isWhiteSpace ws
        \<and> toLowerCase u \<in> {''mg'', ''mcg'', ''g'', ''ml'', ''cc'', ''unit'', ''units''})"
  unfolding dose_pattern_def in_Then3_iff in_digits_iff in_Many_Class_iff in_unit_names_iff
  by blast

text \<open>
  C7. \<open>isMedicationRequest\<close> is true exactly when the message contains a match of the dose
  pattern, or contains one of the add-keywords and also one of the medication keywords or
  one of the medication names.
\<close>

theorem isMedicationRequest_iff:
  "isMedicationRequest msg \<longleftrightarrow>
     contains_match dose_pattern msg
     \<or> ((\<exists>k\<in>set [''add'', ''prescribe'', ''start'', ''give'', ''put on'', ''begin'', ''initiate''].
            contains msg k)
        \<and> ((\<exists>k\<in>set [''medication'', ''med'', ''drug'', ''prescription'', ''pill'', ''tablet'',
                       ''capsule'']. contains msg k)
           \<or> (\<exists>k\<in>set [''aspirin'', ''tylenol'', ''ibuprofen'', ''acetaminophen'', ''paracetamol'',
                         ''lisinopril'', ''metformin'']. contains msg k)))"
proof -
  have "isMedicationRequest msg \<longleftrightarrow>
          ((\<exists>k\<in>set addKeywords. contains msg k)
            \<and> ((\<exists>k\<in>set medicationKeywords. contains msg k) \<or> (\<exists>k\<in>set specificMeds. contains msg k)))
          \<or> contains_match dose_pattern msg"
    by (simp only: isMedicationRequest_def Let_def list_ex_iff str_includes_iff regex_test_iff)
  then show ?thesis
    unfolding addKeywords_def medicationKeywords_def specificMeds_def by blast
qed

theorem isMedicationRequest_iff_witness:
  "isMedicationRequest ''start lisinopril'' \<and> isMedicationRequest ''take 5 ML now''
   \<and> \<not> contains_match dose_pattern ''no dose''"
proof -
  have a: "contains ''start lisinopril'' ''start''"
    unfolding contains_def by (intro exI [of _ "[]"] exI [of _ "'' lisinopril''"]) simp
  have b: "contains ''start lisinopril'' ''lisinopril''"
    unfolding contains_def by (intro exI [of _ "''start ''"] exI [of _ "[]"]) simp
  have parts: "list_all is_digit ''5''" "list_all isWhiteSpace '' ''" "toLowerCase ''ML'' = ''ml''"
    by code_simp+
  have c: "in_lang dose_pattern ''5 ML''"
    unfolding dose_pattern_lang
    using parts by (intro exI [of _ "''5''"] exI [of _ "'' ''"] exI [of _ "''ML''"]) simp
  have d: "contains_match dose_pattern ''take 5 ML now''"
    unfolding contains_match_def
    using c by (intro exI [of _ "''take ''"] exI [of _ "''5 ML''"] exI [of _ "'' now''"]) simp
  have e: "\<not> isMedicationRequest ''no dose''"
    by code_simp
  from isMedicationRequest_iff [of "''start lisinopril''"] a b
  have 1: "isMedicationRequest ''start lisinopril''" by simp
  from isMedicationRequest_iff [of "''take 5 ML now''"] d
  have 2: "isMedicationRequest ''take 5 ML now''" by simp
  from isMedicationRequest_iff [of "''no dose''"] e
  have 3: "\<not> contains_match dose_pattern ''no dose''" by simp
  from 1 2 3 show ?thesis by simp
qed

section \<open>Properties of the Ozwell integration\<close>

lemma loadEnvironmentVariables_toolsContext:
  "toolsContext (loadEnvironmentVariables fetched s) = toolsContext s"
  by (cases fetched) (simp_all add: loadEnvironmentVariables_def Let_def)

lemma simulateOzwellAPI_toolsContext:
  "toolsContext s = toolsContext s' \<Longrightarrow> simulateOzwellAPI messages s = simulateOzwellAPI messages s'"
  by (simp add: simulateOzwellAPI_def)

lemma state_after_toolsContext:
  "toolsContext (state_after (Ozwell_generateResponse messages fetched api s)) = toolsContext s"
  by (simp add: Ozwell_generateResponse_def Let_def load_if_needed_def
        loadEnvironmentVariables_toolsContext split: sum.splits)

lemma loadEnvironmentVariables_simulation:
  "useSimulationMode s \<Longrightarrow> useSimulationMode (loadEnvironmentVariables fetched s)"
  by (cases fetched) (simp_all add: loadEnvironmentVariables_def Let_def)

text \<open>
  C4. \<open>generateResponse\<close> never ends in an error. When it calls the API and the call
  throws, it returns the text \<open>simulateOzwellAPI\<close> gives for the same messages. When the
  simulation mode is on, or no API key is there after the attempt to load one, it returns
  that text without calling the API.
\<close>

theorem Ozwell_generateResponse_falls_back:
  "(\<exists>response. outcome (Ozwell_generateResponse messages fetched api s) = Inr response)
   \<and> ((\<exists>err. api = Inl err) \<and> api_called (Ozwell_generateResponse messages fetched api s) \<longrightarrow>
        outcome (Ozwell_generateResponse messages fetched api s)
          = Inr (simulateOzwellAPI messages s))
   \<and> (useSimulationMode s \<or> \<not> truthy (oz_apiKey (load_if_needed fetched s)) \<longrightarrow>
        \<not> api_called (Ozwell_generateResponse messages fetched api s)
        \<and> outcome (Ozwell_generateResponse messages fetched api s)
            = Inr (simulateOzwellAPI messages s))"
proof -
  define s1 where "s1 = load_if_needed fetched s"
  define s2 where "s2 = (if \<not> truthy (oz_apiKey s1) \<and> \<not> useSimulationMode s1
                          then s1\<lparr> useSimulationMode := True \<rparr> else s1)"
  have tc: "toolsContext s2 = toolsContext s"
    by (simp add: s2_def s1_def load_if_needed_def loadEnvironmentVariables_toolsContext)
  have sim: "simulateOzwellAPI messages s2 = simulateOzwellAPI messages s"
    by (rule simulateOzwellAPI_toolsContext [OF tc])
  have r: "Ozwell_generateResponse messages fetched api s =
     (if useSimulationMode s2
      then \<lparr> outcome = Inr (simulateOzwellAPI messages s), api_called = False, state_after = s2 \<rparr>
      else (case api of
              Inr response \<Rightarrow> \<lparr> outcome = Inr response, api_called = True, state_after = s2 \<rparr>
            | Inl err \<Rightarrow> \<lparr> outcome = Inr (simulateOzwellAPI messages s), api_called = True,
                             state_after = s2 \<rparr>))"
    unfolding sim [symmetric]
    by (simp only: Ozwell_generateResponse_def Let_def s2_def s1_def)
  have on: "useSimulationMode s \<or> \<not> truthy (oz_apiKey s1) \<Longrightarrow> useSimulationMode s2"
    by (auto simp: s2_def s1_def load_if_needed_def loadEnvironmentVariables_simulation)
  have 1: "\<exists>response. outcome (Ozwell_generateResponse messages fetched api s) = Inr response"
    by (simp add: r split: sum.split)
  have 2: "(\<exists>err. api = Inl err) \<and> api_called (Ozwell_generateResponse messages fetched api s) \<longrightarrow>
        outcome (Ozwell_generateResponse messages fetched api s)
          = Inr (simulateOzwellAPI messages s)"
    by (auto simp: r)
  have 3: "useSimulationMode s \<or> \<not> truthy (oz_apiKey (load_if_needed fetched s)) \<longrightarrow>
        \<not> api_called (Ozwell_generateResponse messages fetched api s)
        \<and> outcome (Ozwell_generateResponse messages fetched api s)
            = Inr (simulateOzwellAPI messages s)"
    using on by (simp add: r s1_def)
  from 1 2 3 show ?thesis by blast
qed

theorem Ozwell_generateResponse_falls_back_witness:
  "api_called (Ozwell_generateResponse dolo_request EnvNotOk (Inl (Error ''API request failed: 500 ''))
     live_OzwellIntegration)
   \<and> outcome (Ozwell_generateResponse dolo_request EnvNotOk (Inl (Error ''API request failed: 500 ''))
       live_OzwellIntegration)
     = Inr (simulateOzwellAPI dolo_request live_OzwellIntegration)
   \<and> \<not> api_called (Ozwell_generateResponse dolo_request EnvNotOk (Inr ''unused'') new_OzwellIntegration)
   \<and> outcome (Ozwell_generateResponse dolo_request EnvNotOk (Inr ''unused'') new_OzwellIntegration)
     = Inr (simulateOzwellAPI dolo_request new_OzwellIntegration)"
proof -
  have called: "api_called (Ozwell_generateResponse dolo_request EnvNotOk
                  (Inl (Error ''API request failed: 500 '')) live_OzwellIntegration)"
    by (simp add: Ozwell_generateResponse_def Let_def load_if_needed_def truthy_def
          live_OzwellIntegration_def new_OzwellIntegration_def)
  have on: "useSimulationMode new_OzwellIntegration"
    by (simp add: new_OzwellIntegration_def)
  from Ozwell_generateResponse_falls_back
         [of dolo_request EnvNotOk "Inl (Error ''API request failed: 500 '')" live_OzwellIntegration]
       called
  have a: "outcome (Ozwell_generateResponse dolo_request EnvNotOk
              (Inl (Error ''API request failed: 500 '')) live_OzwellIntegration)
            = Inr (simulateOzwellAPI dolo_request live_OzwellIntegration)"
    by blast
  from Ozwell_generateResponse_falls_back
         [of dolo_request EnvNotOk "Inr ''unused''" new_OzwellIntegration] on
  have b: "\<not> api_called (Ozwell_generateResponse dolo_request EnvNotOk (Inr ''unused'')
               new_OzwellIntegration)
           \<and> outcome (Ozwell_generateResponse dolo_request EnvNotOk (Inr ''unused'')
               new_OzwellIntegration)
             = Inr (simulateOzwellAPI dolo_request new_OzwellIntegration)"
    by blast
  from called a b show ?thesis by blast
qed

text \<open>What the simulation answers before it has a tools context, and what the parser reads.\<close>

lemma simulate_new_getContext:
  "Ozwell_parseToolCalls JSON_parse (ResponseText (simulateOzwellAPI dolo_request new_OzwellIntegration))
     = Inr [\<lparr> tool_id = None, tool_name = ''getContext'', parameters = JObject [], provider = None \<rparr>]"
  by code_simp

end
